theory Spec2Isabelle
  imports Complex_Main "HOL-Library.AList" "HOL-Library.Word"
begin

unbundle bit_operations_syntax

section \<open>Conventions of the embedding\<close>

text \<open>
  The TypeScript sources are embedded function by function. In the graph, the
  initialization of a field, the learner and the evolution, a JavaScript \<open>number\<close> that
  carries a measurement (a weight, an amplitude, a time) is a \<^typ>\<open>real\<close> and the
  arithmetic is the exact one: rounding, overflow to \<open>Infinity\<close> and \<open>NaN\<close> are outside
  that part of the model, a quotient whose divisor is zero has there the value of HOL's
  total division, and no property proved below rests on such a quotient. In
  \<open>QuantumField.normalize\<close> and in the pattern detector, whose results turn on overflow,
  underflow and \<open>0 / 0\<close>, the arithmetic is that of the doubles (\<open>js_num\<close> below): every
  operation rounds to the nearest double, overflows to an infinity, and yields \<open>NaN\<close> as
  IEEE 754 prescribes. The sign of a zero is not modelled (the zero of the model is
  \<open>+0\<close>; the divisors of the embedded code are a norm and products of lengths, never
  \<open>-0\<close>), and \<open>Math.cos\<close>, \<open>Math.exp\<close> and \<open>Math.atan2\<close>, which the standard leaves to the
  implementation, are taken as correctly rounded. A \<open>number\<close> that is a length or an
  index is a \<^typ>\<open>nat\<close>. Objects are values: where the sources share one object
  between two holders and a property depends on it, the definition says so. A thrown
  exception is a value of \<open>js_error\<close>. A \<open>Map\<close> is an association list in insertion
  order: \<open>Map.set\<close> is \<^const>\<open>AList.update\<close> (an existing key keeps its place, a new
  key goes to the end), \<open>Map.delete\<close> is \<^const>\<open>AList.delete\<close>, \<open>Map.get\<close> is
  \<^const>\<open>map_of\<close>. Identifiers that the sources draw from \<open>uuidv4()\<close>, \<open>Math.random()\<close>
  or \<open>Date.now()\<close> are arguments of the embedded function.
\<close>

datatype js_error = Error string | TypeError string


section \<open>JavaScript numbers in double precision\<close>

text \<open>
  The value of a JavaScript \<open>number\<close> where rounding, overflow or \<open>NaN\<close> matters: a finite
  number, \<open>Infinity\<close>, \<open>-Infinity\<close> or \<open>NaN\<close>. The finite numbers that arithmetic
  produces are those of the binary64 format.
\<close>

datatype js_num = Num real | PInf | NInf | NaN

text \<open>Rounding to the nearest integer, a tie going to the even one.\<close>

definition round_even :: "real \<Rightarrow> int" where
  "round_even y =
     (let f = \<lfloor>y\<rfloor>
      in if y - of_int f < 1 / 2 then f
         else if 1 / 2 < y - of_int f then f + 1
         else if even f then f else f + 1)"

text \<open>
  The binary64 numbers around \<open>x\<close> are the multiples of \<open>2\<close> to the power
  \<open>spacing_exponent x\<close>: 52 binary places below the leading bit of \<open>x\<close>, and never finer
  than \<open>2\<^sup>-\<^sup>1\<^sup>0\<^sup>7\<^sup>4\<close> (the subnormal numbers).
\<close>

definition spacing_exponent :: "real \<Rightarrow> int" where
  "spacing_exponent x = max \<lfloor>log 2 \<bar>x\<bar>\<rfloor> (- 1022) - 52"

text \<open>
  The result of an arithmetic operation whose exact value is \<open>x\<close>: \<open>x\<close> rounded to the
  nearest binary64 number, ties to even; a rounded magnitude of \<open>2\<^sup>1\<^sup>0\<^sup>2\<^sup>4\<close> or more is an
  infinity.
\<close>

definition fl :: "real \<Rightarrow> js_num" where
  "fl x =
     (if x = 0 then Num 0
      else
        let q = 2 powr of_int (spacing_exponent x);
            r = of_int (round_even (x / q)) * q
        in if 2 ^ 1024 \<le> \<bar>r\<bar> then (if 0 < x then PInf else NInf) else Num r)"


text \<open>Unary minus, \<open>+\<close>, \<open>-\<close>, \<open>*\<close> and \<open>/\<close> of JavaScript.\<close>

fun js_neg :: "js_num \<Rightarrow> js_num" where
  "js_neg (Num a) = Num (- a)"
| "js_neg PInf = NInf"
| "js_neg NInf = PInf"
| "js_neg NaN = NaN"

fun js_add :: "js_num \<Rightarrow> js_num \<Rightarrow> js_num" where
  "js_add (Num a) (Num b) = fl (a + b)"
| "js_add NaN b = NaN"
| "js_add a NaN = NaN"
| "js_add PInf NInf = NaN"
| "js_add NInf PInf = NaN"
| "js_add PInf b = PInf"
| "js_add a PInf = PInf"
| "js_add NInf b = NInf"
| "js_add a NInf = NInf"

definition js_sub :: "js_num \<Rightarrow> js_num \<Rightarrow> js_num" where
  "js_sub a b = js_add a (js_neg b)"

fun js_mul :: "js_num \<Rightarrow> js_num \<Rightarrow> js_num" where
  "js_mul (Num a) (Num b) = fl (a * b)"
| "js_mul NaN b = NaN"
| "js_mul a NaN = NaN"
| "js_mul (Num a) PInf = (if a = 0 then NaN else if 0 < a then PInf else NInf)"
| "js_mul (Num a) NInf = (if a = 0 then NaN else if 0 < a then NInf else PInf)"
| "js_mul PInf (Num b) = (if b = 0 then NaN else if 0 < b then PInf else NInf)"
| "js_mul NInf (Num b) = (if b = 0 then NaN else if 0 < b then NInf else PInf)"
| "js_mul PInf PInf = PInf"
| "js_mul PInf NInf = NInf"
| "js_mul NInf PInf = NInf"
| "js_mul NInf NInf = PInf"

fun js_div :: "js_num \<Rightarrow> js_num \<Rightarrow> js_num" where
  "js_div (Num a) (Num b) =
     (if b = 0 then (if a = 0 then NaN else if 0 < a then PInf else NInf) else fl (a / b))"
| "js_div NaN b = NaN"
| "js_div a NaN = NaN"
| "js_div (Num a) PInf = Num 0"
| "js_div (Num a) NInf = Num 0"
| "js_div PInf (Num b) = (if 0 \<le> b then PInf else NInf)"
| "js_div NInf (Num b) = (if 0 \<le> b then NInf else PInf)"
| "js_div PInf PInf = NaN"
| "js_div PInf NInf = NaN"
| "js_div NInf PInf = NaN"
| "js_div NInf NInf = NaN"

text \<open>\<open>Math.abs\<close>, \<open>Math.sqrt\<close>, \<open>Math.cos\<close>, \<open>Math.exp\<close>, \<open>Math.atan2\<close> and \<open>Math.PI\<close>.\<close>

fun js_abs :: "js_num \<Rightarrow> js_num" where
  "js_abs (Num a) = Num \<bar>a\<bar>"
| "js_abs PInf = PInf"
| "js_abs NInf = PInf"
| "js_abs NaN = NaN"

fun js_sqrt :: "js_num \<Rightarrow> js_num" where
  "js_sqrt (Num a) = (if a < 0 then NaN else fl (sqrt a))"
| "js_sqrt PInf = PInf"
| "js_sqrt NInf = NaN"
| "js_sqrt NaN = NaN"

fun js_cos :: "js_num \<Rightarrow> js_num" where
  "js_cos (Num a) = fl (cos a)"
| "js_cos PInf = NaN"
| "js_cos NInf = NaN"
| "js_cos NaN = NaN"

fun js_exp :: "js_num \<Rightarrow> js_num" where
  "js_exp (Num a) = fl (exp a)"
| "js_exp PInf = PInf"
| "js_exp NInf = Num 0"
| "js_exp NaN = NaN"

definition Math_PI :: js_num where
  "Math_PI = fl pi"

text \<open>The comparisons \<open><\<close> and \<open><=\<close>; \<open>>\<close> and \<open>>=\<close> are these with the operands exchanged.
  Every comparison with \<open>NaN\<close> is false.\<close>

fun js_less :: "js_num \<Rightarrow> js_num \<Rightarrow> bool" where
  "js_less (Num a) (Num b) = (a < b)"
| "js_less NaN b = False"
| "js_less a NaN = False"
| "js_less a NInf = False"
| "js_less PInf b = False"
| "js_less NInf b = True"
| "js_less a PInf = True"

fun js_le :: "js_num \<Rightarrow> js_num \<Rightarrow> bool" where
  "js_le (Num a) (Num b) = (a \<le> b)"
| "js_le NaN b = False"
| "js_le a NaN = False"
| "js_le NInf b = True"
| "js_le a PInf = True"
| "js_le a NInf = False"
| "js_le PInf b = False"

definition js_gt :: "js_num \<Rightarrow> js_num \<Rightarrow> bool" where
  "js_gt a b = js_less b a"

definition js_ge :: "js_num \<Rightarrow> js_num \<Rightarrow> bool" where
  "js_ge a b = js_le b a"

text \<open>The finite number that a value of the model holds.\<close>

fun number_value :: "js_num \<Rightarrow> real" where
  "number_value (Num a) = a"
| "number_value PInf = 0"
| "number_value NInf = 0"
| "number_value NaN = 0"



section \<open>The relational graph (\<open>lib/network/graph.ts\<close>)\<close>

datatype prop_value = PString string | PNumber real | PBool bool

type_synonym properties = "(string \<times> prop_value) list"

record GraphNode =
  node_id :: string
  node_label :: string
  node_type :: string
  node_properties :: properties
  node_position :: "(real \<times> real) option"

record GraphEdge =
  edge_id :: string
  source :: string
  target :: string
  edge_type :: string
  weight :: real
  edge_properties :: properties

record GraphData =
  data_nodes :: "GraphNode list"
  data_edges :: "GraphEdge list"

record Graph =
  nodes :: "(string \<times> GraphNode) list"
  edges :: "(string \<times> GraphEdge) list"

text \<open>\<open>Map.has\<close>.\<close>

definition has :: "'k \<Rightarrow> ('k \<times> 'v) list \<Rightarrow> bool" where
  "has k m = (k \<in> set (map fst m))"

text \<open>The constructor: two empty maps.\<close>

definition Graph_new :: Graph where
  "Graph_new = \<lparr>nodes = [], edges = []\<rparr>"

text \<open>\<open>addNode(label, type, properties = {})\<close>; \<open>uid\<close> is the value of \<open>uuidv4()\<close>.\<close>

definition addNode :: "Graph \<Rightarrow> string \<Rightarrow> string \<Rightarrow> string \<Rightarrow> properties option
    \<Rightarrow> GraphNode \<times> Graph" where
  "addNode g uid label ty props =
     (let node = \<lparr>node_id = uid, node_label = label, node_type = ty,
                  node_properties = (case props of None \<Rightarrow> [] | Some p \<Rightarrow> p),
                  node_position = None\<rparr>
      in (node, g\<lparr>nodes := AList.update (node_id node) node (nodes g)\<rparr>))"

text \<open>
  \<open>addEdge(source, target, type, weight = 1.0, properties = {})\<close>. The weight is stored
  as it is passed.
\<close>

definition addEdge :: "Graph \<Rightarrow> string \<Rightarrow> string \<Rightarrow> string \<Rightarrow> string \<Rightarrow> real option
    \<Rightarrow> properties option \<Rightarrow> js_error + GraphEdge \<times> Graph" where
  "addEdge g uid src tgt ty w props =
     (if \<not> has src (nodes g) \<or> \<not> has tgt (nodes g)
      then Inl (Error ''Source or target node does not exist'')
      else
        let edge = \<lparr>edge_id = uid, source = src, target = tgt, edge_type = ty,
                    weight = (case w of None \<Rightarrow> 1 | Some x \<Rightarrow> x),
                    edge_properties = (case props of None \<Rightarrow> [] | Some p \<Rightarrow> p)\<rparr>
        in Inr (edge, g\<lparr>edges := AList.update (edge_id edge) edge (edges g)\<rparr>))"

text \<open>
  \<open>removeNode(id)\<close>: the loop visits the entries of the edge map and deletes, by key,
  each one that touches \<open>id\<close>; then the node is deleted.
\<close>

definition removeNode_step :: "string \<Rightarrow> (string \<times> GraphEdge) list \<Rightarrow> string \<times> GraphEdge
    \<Rightarrow> (string \<times> GraphEdge) list" where
  "removeNode_step i es entry =
     (if source (snd entry) = i \<or> target (snd entry) = i
      then AList.delete (fst entry) es else es)"

definition removeNode :: "Graph \<Rightarrow> string \<Rightarrow> Graph" where
  "removeNode g i =
     g\<lparr>edges := foldl (removeNode_step i) (edges g) (edges g),
       nodes := AList.delete i (nodes g)\<rparr>"

definition removeEdge :: "Graph \<Rightarrow> string \<Rightarrow> Graph" where
  "removeEdge g i = g\<lparr>edges := AList.delete i (edges g)\<rparr>"

definition getNode :: "Graph \<Rightarrow> string \<Rightarrow> GraphNode option" where
  "getNode g i = map_of (nodes g) i"

definition getEdge :: "Graph \<Rightarrow> string \<Rightarrow> GraphEdge option" where
  "getEdge g i = map_of (edges g) i"

definition updateNodePosition :: "Graph \<Rightarrow> string \<Rightarrow> real \<Rightarrow> real \<Rightarrow> Graph" where
  "updateNodePosition g i x y =
     (case map_of (nodes g) i of
        None \<Rightarrow> g
      | Some node \<Rightarrow> g\<lparr>nodes := AList.update i (node\<lparr>node_position := Some (x, y)\<rparr>) (nodes g)\<rparr>)"

text \<open>\<open>updateEdgeWeight(id, weight)\<close>: the one place that clamps a weight.\<close>

definition updateEdgeWeight :: "Graph \<Rightarrow> string \<Rightarrow> real \<Rightarrow> Graph" where
  "updateEdgeWeight g i w =
     (case map_of (edges g) i of
        None \<Rightarrow> g
      | Some edge \<Rightarrow> g\<lparr>edges := AList.update i (edge\<lparr>weight := max 0 (min 1 w)\<rparr>) (edges g)\<rparr>)"

definition clear :: "Graph \<Rightarrow> Graph" where
  "clear g = g\<lparr>nodes := [], edges := []\<rparr>"

definition toJSON :: "Graph \<Rightarrow> GraphData" where
  "toJSON g = \<lparr>data_nodes = map snd (nodes g), data_edges = map snd (edges g)\<rparr>"

definition fromJSON :: "Graph \<Rightarrow> GraphData \<Rightarrow> Graph" where
  "fromJSON g d =
     (let g0 = clear g;
          g1 = g0\<lparr>nodes := foldl (\<lambda>m node. AList.update (node_id node) node m) (nodes g0) (data_nodes d)\<rparr>
      in g1\<lparr>edges := foldl (\<lambda>m edge. AList.update (edge_id edge) edge m) (edges g1) (data_edges d)\<rparr>)"

text \<open>
  What every graph built through the methods satisfies: each map has one entry per key,
  and an entry's key is the identifier stored in its value.
\<close>

definition keyed_by :: "('v \<Rightarrow> string) \<Rightarrow> (string \<times> 'v) list \<Rightarrow> bool" where
  "keyed_by f m = (distinct (map fst m) \<and> list_all (\<lambda>entry. fst entry = f (snd entry)) m)"

definition Graph_inv :: "Graph \<Rightarrow> bool" where
  "Graph_inv g = (keyed_by node_id (nodes g) \<and> keyed_by edge_id (edges g))"

text \<open>
  The calls that change a graph, and a graph as a sequence of such calls builds it from
  the empty one. An \<open>addEdge\<close> that throws leaves the graph as it was.
\<close>

datatype graph_op =
    AddNode string string string "properties option"
  | AddEdge string string string string "real option" "properties option"
  | RemoveNode string
  | RemoveEdge string
  | UpdateNodePosition string real real
  | UpdateEdgeWeight string real
  | Clear
  | FromJSON GraphData

fun apply_op :: "Graph \<Rightarrow> graph_op \<Rightarrow> Graph" where
  "apply_op g (AddNode uid label ty props) = snd (addNode g uid label ty props)"
| "apply_op g (AddEdge uid src tgt ty w props) =
     (case addEdge g uid src tgt ty w props of Inl e \<Rightarrow> g | Inr (edge, g') \<Rightarrow> g')"
| "apply_op g (RemoveNode i) = removeNode g i"
| "apply_op g (RemoveEdge i) = removeEdge g i"
| "apply_op g (UpdateNodePosition i x y) = updateNodePosition g i x y"
| "apply_op g (UpdateEdgeWeight i w) = updateEdgeWeight g i w"
| "apply_op g Clear = clear g"
| "apply_op g (FromJSON d) = fromJSON g d"

definition built_by :: "graph_op list \<Rightarrow> Graph" where
  "built_by ops = foldl apply_op Graph_new ops"

text \<open>The property of the data model: every stored weight lies in \<open>[0, 1]\<close>.\<close>

definition weights_in_unit :: "Graph \<Rightarrow> bool" where
  "weights_in_unit g = list_all (\<lambda>entry. 0 \<le> weight (snd entry) \<and> weight (snd entry) \<le> 1) (edges g)"

definition touches :: "string \<Rightarrow> GraphEdge \<Rightarrow> bool" where
  "touches i e = (source e = i \<or> target e = i)"


section \<open>Complex numbers (\<open>lib/quantum/complex.ts\<close>)\<close>

datatype Complex = Complex_new (real_c: real) (imag_c: real)

text \<open>
  \<open>Math.atan2(y, x)\<close> on exact numbers; the sign of a zero is not told apart, so
  \<open>atan2 0 x\<close> is \<open>pi\<close> for every negative \<open>x\<close>.
\<close>

definition atan2 :: "real \<Rightarrow> real \<Rightarrow> real" where
  "atan2 y x =
     (if 0 < x then arctan (y / x)
      else if x < 0 \<and> 0 \<le> y then arctan (y / x) + pi
      else if x < 0 then arctan (y / x) - pi
      else if 0 < y then pi / 2
      else if y < 0 then - (pi / 2)
      else 0)"

definition Complex_fromPolar :: "real \<Rightarrow> real \<Rightarrow> Complex" where
  "Complex_fromPolar r theta = Complex_new (r * cos theta) (r * sin theta)"

definition Complex_add :: "Complex \<Rightarrow> Complex \<Rightarrow> Complex" where
  "Complex_add a b = Complex_new (real_c a + real_c b) (imag_c a + imag_c b)"

definition Complex_multiply :: "Complex \<Rightarrow> Complex \<Rightarrow> Complex" where
  "Complex_multiply a b =
     Complex_new (real_c a * real_c b - imag_c a * imag_c b)
                 (real_c a * imag_c b + imag_c a * real_c b)"

definition Complex_conjugate :: "Complex \<Rightarrow> Complex" where
  "Complex_conjugate a = Complex_new (real_c a) (- imag_c a)"

definition Complex_scale :: "Complex \<Rightarrow> real \<Rightarrow> Complex" where
  "Complex_scale a factor = Complex_new (real_c a * factor) (imag_c a * factor)"

definition Complex_magnitude :: "Complex \<Rightarrow> real" where
  "Complex_magnitude a = sqrt (real_c a * real_c a + imag_c a * imag_c a)"

definition Complex_phase :: "Complex \<Rightarrow> real" where
  "Complex_phase a = atan2 (imag_c a) (real_c a)"

section \<open>The quantum field (\<open>lib/quantum/field.ts\<close>)\<close>

record SystemState =
  state_Psi :: real
  state_E :: real
  state_S :: real
  state_I :: real
  state_Omega :: real
  state_C :: real
  state_L :: real
  state_D :: real

record QuantumField =
  dimensions :: nat
  field_values :: "Complex list"
  field_phase :: "real list"
  coherence :: real
  intelligence :: real
  entropy :: real
  energy :: real
  information :: real
  complexity :: real
  field_learningRate :: real
  development :: real
  primeFactors :: "nat list"
  spectralForm :: "Complex list"
  systemState :: SystemState

text \<open>The constructor \<open>new QuantumField(dimensions)\<close>.\<close>

definition QuantumField_new :: "nat \<Rightarrow> QuantumField" where
  "QuantumField_new n =
     \<lparr>dimensions = n,
      field_values = replicate n (Complex_new 0 0),
      field_phase = replicate n 0,
      coherence = 0, intelligence = 0, entropy = 0, energy = 0, information = 0,
      complexity = 0, field_learningRate = 0, development = 0,
      primeFactors = [],
      spectralForm = replicate n (Complex_new 0 0),
      systemState = \<lparr>state_Psi = 0, state_E = 0, state_S = 0, state_I = 0, state_Omega = 0,
                      state_C = 0, state_L = 0, state_D = 0\<rparr>\<rparr>"

text \<open>
  The loops of \<open>getPrimeFactors\<close>, entered at the test of the inner \<open>while\<close>:
  \<open>num % d === 0\<close> divides \<open>d\<close> out once more; otherwise \<open>d++\<close>, the \<open>break\<close> test
  and the test of the outer \<open>while\<close> follow. The divisor starts at 2 and only grows,
  and \<open>num\<close> stays positive, which the first test records.
\<close>

function trial_division :: "nat \<Rightarrow> nat \<Rightarrow> nat list \<Rightarrow> nat list" where
  "trial_division num d factors =
     (if 2 \<le> d \<and> 0 < num \<and> num mod d = 0
      then trial_division (num div d) d (factors @ [d])
      else if num < (d + 1) * (d + 1)
        then (if 1 < num then factors @ [num] else factors)
      else if 1 < num then trial_division num (d + 1) factors
      else factors)"
  by pat_completeness auto
termination
proof (relation "measures [\<lambda>(num, d, factors). num, \<lambda>(num, d, factors). num - d]")
  show "wf (measures [\<lambda>(num, d, factors). num, \<lambda>(num, d, factors). num - d])"
    by simp
next
  fix num d :: nat and factors :: "nat list"
  assume "2 \<le> d \<and> 0 < num \<and> num mod d = 0"
  then show "((num div d, d, factors @ [d]), num, d, factors)
      \<in> measures [\<lambda>(num, d, factors). num, \<lambda>(num, d, factors). num - d]"
    by simp
next
  fix num d :: nat and factors :: "nat list"
  assume "\<not> num < (d + 1) * (d + 1)"
  then have "(d + 1) * (d + 1) \<le> num" by simp
  moreover have "d + 1 \<le> (d + 1) * (d + 1)" by simp
  ultimately have "d < num" by linarith
  then show "((num, d + 1, factors), num, d, factors)
      \<in> measures [\<lambda>(num, d, factors). num, \<lambda>(num, d, factors). num - d]"
    by simp
qed

definition getPrimeFactors :: "nat \<Rightarrow> nat list" where
  "getPrimeFactors n = (if n \<le> 1 then [1] else trial_division n 2 [])"

definition spectralFormFactor :: "real \<Rightarrow> real \<Rightarrow> real \<Rightarrow> Complex" where
  "spectralFormFactor p q tau =
     (let ph = (ln p - ln q) * tau
      in Complex_new (cos ph / (p * q)) (sin ph / (p * q)))"

definition berryPhase :: "nat list \<Rightarrow> real \<Rightarrow> real" where
  "berryPhase primes x = foldl (\<lambda>ph p. ph + ln (real p) * x) 0 primes"

text \<open>
  A token is a JavaScript string: a sequence of UTF-16 code units, which
  \<open>split('')\<close> enumerates and \<open>charCodeAt(0)\<close> reads. \<open>h << 5\<close> converts \<open>h\<close> to a signed
  32-bit integer and shifts it; the subtraction and the addition around it are those of
  numbers, so the hash is not reduced to 32 bits between characters.
\<close>

type_synonym js_string = "16 word list"

definition shift_left_5 :: "int \<Rightarrow> int" where
  "shift_left_5 h = sint (push_bit 5 (word_of_int h :: 32 word))"

definition token_hash :: "js_string \<Rightarrow> int" where
  "token_hash token = foldl (\<lambda>h c. (shift_left_5 h - h) + int (unat c)) 0 token"

text \<open>
  An indexed store \<open>a[k] = v\<close>: inside the array it replaces the element, at its end it
  appends, further out JavaScript leaves holes before the new element.
\<close>

definition array_put :: "'a list \<Rightarrow> nat \<Rightarrow> 'a \<Rightarrow> 'a list" where
  "array_put a k v =
     (if k < length a then a[k := v]
      else a @ replicate (k - length a) undefined @ [v])"

definition spectralSum_at :: "nat list \<Rightarrow> real \<Rightarrow> Complex" where
  "spectralSum_at primes x =
     foldl (\<lambda>acc i.
         foldl (\<lambda>acc j.
             Complex_add acc
               (spectralFormFactor (real (primes ! i)) (real (primes ! j)) (2 * pi * x)))
           acc [i..<length primes])
       (Complex_new 0 0) [0..<length primes]"

text \<open>
  One round of the loop of \<open>initialize\<close>. The statement that takes the square root of
  \<open>coherence / dimensions\<close> stands inside the loop body, after the accumulation, so it
  runs in every round.
\<close>

definition initialize_step :: "real \<Rightarrow> QuantumField \<Rightarrow> nat \<Rightarrow> QuantumField" where
  "initialize_step normalization f k =
     (let x = real k / real (length (field_values f));
          berry = berryPhase (primeFactors f) x;
          spectralSum = spectralSum_at (primeFactors f) x;
          ph = berry + Complex_phase spectralSum;
          magnitude = Complex_magnitude spectralSum / normalization
      in f\<lparr>field_values := array_put (field_values f) k (Complex_fromPolar magnitude ph),
           field_phase := array_put (field_phase f) k ph,
           spectralForm := array_put (spectralForm f) k spectralSum,
           coherence := sqrt ((coherence f + magnitude * magnitude) / real (dimensions f))\<rparr>)"

definition initialize :: "js_string \<Rightarrow> QuantumField \<Rightarrow> QuantumField" where
  "initialize token f =
     (let f0 = f\<lparr>coherence := 0\<rparr>;
          hash = token_hash token;
          f1 = f0\<lparr>primeFactors := getPrimeFactors (nat \<bar>hash\<bar> + 1)\<rparr>;
          normalization = sqrt (foldl (\<lambda>sum p. sum + 1 / real p) 0 (primeFactors f1))
      in foldl (initialize_step normalization) f1 [0..<length (field_values f1)])"

definition computeResonance :: "QuantumField \<Rightarrow> QuantumField \<Rightarrow> js_error + real" where
  "computeResonance f other =
     (if length (field_values other) < length (field_values f)
      then Inl (TypeError ''Cannot read properties of undefined'')
      else Inr (foldl (\<lambda>resonance i.
                  resonance + Complex_magnitude
                    (Complex_multiply (field_values f ! i)
                       (Complex_conjugate (field_values other ! i))))
                0 [0..<length (field_values f)]
                / real (length (field_values f))))"

definition computePhaseCoherence :: "QuantumField \<Rightarrow> QuantumField \<Rightarrow> js_error + real" where
  "computePhaseCoherence f other =
     (if length (field_values other) < length (field_values f)
      then Inl (TypeError ''Cannot read properties of undefined'')
      else Inr ((foldl (\<lambda>c i.
                    c + cos (Complex_phase (field_values f ! i)
                             - Complex_phase (field_values other ! i)))
                  0 [0..<length (field_values f)]
                  / real (length (field_values f)) + 1) / 2))"

definition getSpectralPattern :: "QuantumField \<Rightarrow> Complex list" where
  "getSpectralPattern f = spectralForm f"

definition getValues :: "QuantumField \<Rightarrow> Complex list" where
  "getValues f = field_values f"

definition QuantumField_scale :: "QuantumField \<Rightarrow> real \<Rightarrow> QuantumField" where
  "QuantumField_scale f factor =
     (QuantumField_new (length (field_values f)))
       \<lparr>field_values := map (\<lambda>v. Complex_scale v factor) (field_values f),
        primeFactors := primeFactors f,
        spectralForm := spectralForm f\<rparr>"

text \<open>\<open>[...new Set(xs)]\<close>: the first occurrence of each element, in order.\<close>

definition set_spread :: "'a list \<Rightarrow> 'a list" where
  "set_spread xs = rev (remdups (rev xs))"

text \<open>
  \<open>add(other)\<close> reads \<open>other.values[i]\<close> and \<open>other.spectralForm[i]\<close> at every index of
  its own arrays; where \<open>other\<close> is shorter the element is \<open>undefined\<close> and
  \<open>Complex.add\<close> throws on reading its \<open>real\<close>.
\<close>

definition QuantumField_add :: "QuantumField \<Rightarrow> QuantumField \<Rightarrow> js_error + QuantumField" where
  "QuantumField_add f other =
     (if length (field_values other) < length (field_values f)
         \<or> length (spectralForm other) < length (spectralForm f)
      then Inl (TypeError ''Cannot read properties of undefined (reading real)'')
      else Inr ((QuantumField_new (length (field_values f)))
        \<lparr>field_values := map (\<lambda>i. Complex_add (field_values f ! i) (field_values other ! i))
                           [0..<length (field_values f)],
         primeFactors := set_spread (primeFactors f @ primeFactors other),
         spectralForm := map (\<lambda>i. Complex_add (spectralForm f ! i) (spectralForm other ! i))
                           [0..<length (spectralForm f)]\<rparr>))"

text \<open>
  \<open>normalize\<close> is embedded in double arithmetic. The components of the stored values are
  the operands. \<open>multiply_real a b\<close> is \<open>a.multiply(b).real\<close>, and \<open>scale_rounded v factor\<close>
  is \<open>v.scale(factor)\<close> with both products rounded.
\<close>

definition multiply_real :: "Complex \<Rightarrow> Complex \<Rightarrow> js_num" where
  "multiply_real a b =
     js_sub (js_mul (Num (real_c a)) (Num (real_c b))) (js_mul (Num (imag_c a)) (Num (imag_c b)))"

definition scale_rounded :: "Complex \<Rightarrow> js_num \<Rightarrow> Complex" where
  "scale_rounded v factor =
     Complex_new (number_value (js_mul (Num (real_c v)) factor))
                 (number_value (js_mul (Num (imag_c v)) factor))"

definition QuantumField_normalize :: "QuantumField \<Rightarrow> QuantumField" where
  "QuantumField_normalize f =
     (let norm = js_sqrt (foldl (\<lambda>sum v. js_add sum (multiply_real v (Complex_conjugate v)))
                            (Num 0) (field_values f))
      in if js_gt norm (Num 0)
         then f\<lparr>field_values := map (\<lambda>v. scale_rounded v (js_div (Num 1) norm)) (field_values f)\<rparr>
         else f)"

text \<open>The quantity of the normalization property: the sum of \<open>|values[i]|\<^sup>2\<close>.\<close>

definition norm_squared :: "Complex list \<Rightarrow> real" where
  "norm_squared vs = (\<Sum>v\<leftarrow>vs. (Complex_magnitude v)\<^sup>2)"



text \<open>The root mean square of the magnitudes over the field's \<open>dimensions\<close>.\<close>

definition rms_magnitude :: "QuantumField \<Rightarrow> real" where
  "rms_magnitude f = sqrt (norm_squared (field_values f) / real (dimensions f))"

text \<open>
  Two fields that cannot be told apart by the loop of \<open>initialize\<close> before round \<open>j\<close>:
  the same factors, dimension count and running coherence, arrays of one length, and the
  same first \<open>j\<close> values and phases.
\<close>

definition agree_upto :: "nat \<Rightarrow> QuantumField \<Rightarrow> QuantumField \<Rightarrow> bool" where
  "agree_upto j f g =
     (primeFactors f = primeFactors g \<and> dimensions f = dimensions g
      \<and> coherence f = coherence g
      \<and> length (field_values f) = length (field_values g)
      \<and> length (field_phase f) = length (field_values f)
      \<and> length (field_phase g) = length (field_values g)
      \<and> take j (field_values f) = take j (field_values g)
      \<and> take j (field_phase f) = take j (field_phase g))"

text \<open>A field as the constructor shapes it: \<open>n\<close> values and \<open>n\<close> phases for \<open>n\<close> dimensions.\<close>

definition field_shape :: "nat \<Rightarrow> QuantumField \<Rightarrow> bool" where
  "field_shape n f =
     (dimensions f = n \<and> length (field_values f) = n \<and> length (field_phase f) = n)"

section \<open>The field learner (\<open>lib/quantum/fieldLearner.ts\<close>)\<close>

record LearningContext =
  position :: "real option"
  precedingWords :: "string list option"
  followingWords :: "string list option"
  sentencePosition :: "real option"

text \<open>
  \<open>getFieldKey\<close> serializes the values, the spectral pattern and the context with
  \<open>JSON.stringify\<close>; the key is modelled by the data that the string spells out.
\<close>

datatype FieldKey = FieldKey "(real \<times> real) list" "(real \<times> real) list" "LearningContext option"

record FieldLearner =
  fieldDimensions :: nat
  learningRate :: real
  momentum :: real
  decayFactor :: real
  fieldMemory :: "(FieldKey \<times> QuantumField) list"
  resonanceHistory :: "(FieldKey \<times> real list) list"

text \<open>The constructor; its defaults are 512, 0.01, 0.9 and 0.99.\<close>

definition FieldLearner_new :: "nat option \<Rightarrow> real option \<Rightarrow> real option \<Rightarrow> real option
    \<Rightarrow> FieldLearner" where
  "FieldLearner_new dims rate mom decay =
     \<lparr>fieldDimensions = (case dims of None \<Rightarrow> 512 | Some n \<Rightarrow> n),
      learningRate = (case rate of None \<Rightarrow> 1 / 100 | Some x \<Rightarrow> x),
      momentum = (case mom of None \<Rightarrow> 9 / 10 | Some x \<Rightarrow> x),
      decayFactor = (case decay of None \<Rightarrow> 99 / 100 | Some x \<Rightarrow> x),
      fieldMemory = [], resonanceHistory = []\<rparr>"

definition getFieldKey :: "QuantumField \<Rightarrow> LearningContext option \<Rightarrow> FieldKey" where
  "getFieldKey field context =
     FieldKey (map (\<lambda>v. (real_c v, imag_c v)) (getValues field))
              (map (\<lambda>v. (real_c v, imag_c v)) (getSpectralPattern field))
              context"

text \<open>
  \<open>updateResonanceHistory\<close>: the history of the key (created empty when absent) gets
  the resonance pushed, loses its first entry when it has more than 100, and then every
  entry is multiplied in place by \<open>decayFactor\<close> to the power of its distance from the end.
\<close>

definition decay_in_place :: "real \<Rightarrow> real list \<Rightarrow> real list" where
  "decay_in_place d history =
     foldl (\<lambda>h i. h[i := h ! i * d ^ (length h - i - 1)]) history [0..<length history]"

definition updateResonanceHistory :: "FieldLearner \<Rightarrow> FieldKey \<Rightarrow> real \<Rightarrow> FieldLearner" where
  "updateResonanceHistory L key resonance =
     (let m = (if \<not> has key (resonanceHistory L)
               then AList.update key [] (resonanceHistory L) else resonanceHistory L);
          history = (case map_of m key of None \<Rightarrow> [] | Some h \<Rightarrow> h);
          pushed = history @ [resonance];
          recent = (if 100 < length pushed then tl pushed else pushed)
      in L\<lparr>resonanceHistory := AList.update key (decay_in_place (decayFactor L) recent) m\<rparr>)"

text \<open>
  \<open>computeFieldAdjustment\<close> reads \<open>sourceValues[i]\<close> and \<open>targetValues[i]\<close> for every
  \<open>i\<close> below \<open>fieldDimensions\<close>; calling \<open>phase()\<close> on a missing element throws.
\<close>

definition computeFieldAdjustment :: "FieldLearner \<Rightarrow> QuantumField \<Rightarrow> QuantumField \<Rightarrow> real
    \<Rightarrow> js_error + QuantumField" where
  "computeFieldAdjustment L sourceField targetField resonance =
     (let adjustment = QuantumField_new (fieldDimensions L);
          sourceValues = getValues sourceField;
          targetValues = getValues targetField
      in if length sourceValues < fieldDimensions L \<or> length targetValues < fieldDimensions L
         then Inl (TypeError ''Cannot read properties of undefined (reading phase)'')
         else Inr (QuantumField_normalize
           (adjustment\<lparr>field_values :=
              foldl (\<lambda>vs i.
                  let sourcePhase = Complex_phase (sourceValues ! i);
                      targetPhase = Complex_phase (targetValues ! i);
                      phaseDiff = targetPhase - sourcePhase;
                      magnitude = resonance * learningRate L;
                      ph = phaseDiff * momentum L
                  in array_put vs i (Complex_fromPolar magnitude ph))
                (getValues adjustment) [0..<fieldDimensions L]\<rparr>)))"

text \<open>
  \<open>learnFromInteraction\<close>. The history is updated first; an exception thrown later
  leaves that update in the learner, so the result is the exception, if any, together
  with the learner as the call leaves it.
\<close>

definition learnFromInteraction :: "FieldLearner \<Rightarrow> QuantumField \<Rightarrow> QuantumField \<Rightarrow> real
    \<Rightarrow> LearningContext option \<Rightarrow> js_error option \<times> FieldLearner" where
  "learnFromInteraction L sourceField targetField resonance context =
     (let sourceKey = getFieldKey sourceField context;
          targetKey = getFieldKey targetField context;
          L1 = updateResonanceHistory L sourceKey resonance
      in case computeFieldAdjustment L1 sourceField targetField resonance of
           Inl e \<Rightarrow> (Some e, L1)
         | Inr adjustment \<Rightarrow>
             (case QuantumField_add sourceField adjustment of
                Inl e \<Rightarrow> (Some e, L1)
              | Inr adjustedSource \<Rightarrow>
                  let L2 = L1\<lparr>fieldMemory :=
                        AList.update sourceKey (QuantumField_normalize adjustedSource) (fieldMemory L1)\<rparr>
                  in (None, L2\<lparr>fieldMemory := AList.update targetKey targetField (fieldMemory L2)\<rparr>)))"

definition getResonancePattern :: "FieldLearner \<Rightarrow> QuantumField \<Rightarrow> LearningContext option
    \<Rightarrow> real list" where
  "getResonancePattern L field context =
     (case map_of (resonanceHistory L) (getFieldKey field context) of
        None \<Rightarrow> [] | Some history \<Rightarrow> history)"

definition clearMemory :: "FieldLearner \<Rightarrow> FieldLearner" where
  "clearMemory L = L\<lparr>fieldMemory := [], resonanceHistory := []\<rparr>"

text \<open>
  \<open>n\<close> calls of \<open>learnFromInteraction\<close> in a row with the same fields, resonance and
  context, each on the learner that the call before has left.
\<close>

fun learn_repeatedly :: "nat \<Rightarrow> FieldLearner \<Rightarrow> QuantumField \<Rightarrow> QuantumField \<Rightarrow> real
    \<Rightarrow> LearningContext option \<Rightarrow> FieldLearner" where
  "learn_repeatedly 0 L s t r c = L"
| "learn_repeatedly (Suc n) L s t r c =
     snd (learnFromInteraction (learn_repeatedly n L s t r c) s t r c)"

definition average :: "real list \<Rightarrow> real" where
  "average xs = sum_list xs / real (length xs)"

text \<open>Triangular numbers: the exponent the decay has reached on an entry of age \<open>k\<close>.\<close>

definition triangle :: "nat \<Rightarrow> nat" where
  "triangle k = k * (k + 1) div 2"

text \<open>What one call does to the history of its source key.\<close>

definition pushed_history :: "real \<Rightarrow> real \<Rightarrow> real list \<Rightarrow> real list" where
  "pushed_history d r h =
     decay_in_place d (if 100 < length (h @ [r]) then tl (h @ [r]) else h @ [r])"

text \<open>The history that \<open>m\<close> calls with resonance 1 build: the newest entry last.\<close>

definition decayed_ones :: "real \<Rightarrow> nat \<Rightarrow> real list" where
  "decayed_ones d m = map (\<lambda>i. d ^ triangle (m - 1 - i)) [0..<m]"

section \<open>Wave functions and encoded states (\<open>wavefunction.ts\<close>, \<open>encoder.ts\<close>)\<close>

record WaveFunction =
  wave_dimensions :: "Complex list"
  amplitude :: real
  wave_phase :: real
  wave_id :: string
  wave_connections :: "string list"

text \<open>
  The constructor \<open>new WaveFunction(dimension)\<close>: every dimension is zero; \<open>rid\<close> is the
  identifier drawn from \<open>Math.random()\<close>.
\<close>

definition WaveFunction_new :: "string \<Rightarrow> nat \<Rightarrow> WaveFunction" where
  "WaveFunction_new rid dimension =
     \<lparr>wave_dimensions = replicate dimension (Complex_new 0 0), amplitude = 0, wave_phase = 0,
      wave_id = rid, wave_connections = []\<rparr>"

definition setDimension :: "WaveFunction \<Rightarrow> nat \<Rightarrow> Complex \<Rightarrow> WaveFunction" where
  "setDimension w index v =
     (if index < length (wave_dimensions w)
      then w\<lparr>wave_dimensions := (wave_dimensions w)[index := v]\<rparr> else w)"

definition getDimensions :: "WaveFunction \<Rightarrow> Complex list" where
  "getDimensions w = wave_dimensions w"

definition getAmplitude :: "WaveFunction \<Rightarrow> real" where
  "getAmplitude w = amplitude w"

definition getPhase :: "WaveFunction \<Rightarrow> real" where
  "getPhase w = wave_phase w"

definition WaveFunction_normalize :: "WaveFunction \<Rightarrow> WaveFunction" where
  "WaveFunction_normalize w =
     (let norm = sqrt (foldl (\<lambda>acc dim. acc + real_c (Complex_multiply dim (Complex_conjugate dim)))
                         0 (wave_dimensions w))
      in if norm = 0 then w
         else w\<lparr>wave_dimensions := map (\<lambda>dim. Complex_scale dim (1 / norm)) (wave_dimensions w)\<rparr>)"

record EncodingOptions =
  dimensionality :: nat
  phaseResolution :: real
  amplitudeScale :: real
  coherenceThreshold :: real

record Metadata =
  encodingType :: string
  timestamp :: real
  parameters :: EncodingOptions

record EncodedState =
  waveFunction :: WaveFunction
  sourceNode :: GraphNode
  connections :: "string list"
  metadata :: Metadata

section \<open>Evolution (\<open>lib/quantum/evolution.ts\<close>)\<close>

record EvolutionOperator =
  op_name :: string
  op_apply :: "WaveFunction \<Rightarrow> real \<Rightarrow> WaveFunction"
  op_parameters :: "(string \<times> real) list"

record Metrics =
  totalEnergy :: real
  averageCoherence :: real
  entanglementEntropy :: real

record TimeStep =
  time :: real
  states :: "EncodedState list"
  metrics :: Metrics

record EvolutionOptions =
  timeStep :: real
  totalTime :: real
  operators :: "EvolutionOperator list"
  preserveConnections :: bool
  trackMetrics :: bool

text \<open>The options the constructor of \<open>QuantumEvolution\<close> starts from.\<close>

definition default_options :: EvolutionOptions where
  "default_options =
     \<lparr>timeStep = 1 / 100, totalTime = 1, operators = [], preserveConnections = True,
      trackMetrics = True\<rparr>"

definition createHarmonicOperator :: "real \<Rightarrow> real \<Rightarrow> EvolutionOperator" where
  "createHarmonicOperator frequency ampl =
     \<lparr>op_name = ''harmonic'',
      op_apply = (\<lambda>state t.
         foldl (\<lambda>w i.
             let ph = frequency * t; oscillation = cos ph * ampl
             in setDimension w i (Complex_scale (getDimensions w ! i) (1 + oscillation)))
           state [0..<length (getDimensions state)]),
      op_parameters = [(''frequency'', frequency), (''amplitude'', ampl)]\<rparr>"

definition createDissipationOperator :: "real \<Rightarrow> EvolutionOperator" where
  "createDissipationOperator rate =
     \<lparr>op_name = ''dissipation'',
      op_apply = (\<lambda>state t.
         let decay = exp (- rate * t)
         in foldl (\<lambda>w i. setDimension w i (Complex_scale (getDimensions w ! i) decay))
              state [0..<length (getDimensions state)]),
      op_parameters = [(''rate'', rate)]\<rparr>"

definition createPhaseEvolutionOperator :: "real \<Rightarrow> EvolutionOperator" where
  "createPhaseEvolutionOperator frequency =
     \<lparr>op_name = ''phase-evolution'',
      op_apply = (\<lambda>state t.
         let ph = frequency * t
         in foldl (\<lambda>w i.
               let dim = getDimensions w ! i;
                   magnitude = sqrt (real_c dim * real_c dim + imag_c dim * imag_c dim);
                   currentPhase = atan2 (imag_c dim) (real_c dim);
                   newPhase = currentPhase + ph
               in setDimension w i (Complex_fromPolar magnitude newPhase))
              state [0..<length (getDimensions state)]),
      op_parameters = [(''frequency'', frequency)]\<rparr>"

text \<open>
  \<open>cloneState\<close>: the clone gets a new wave function of the same number of dimensions.
  Nothing is copied into it, so its dimensions are all zero and its amplitude and phase
  are 0.
\<close>

definition cloneState :: "string \<Rightarrow> EncodedState \<Rightarrow> EncodedState" where
  "cloneState rid state =
     \<lparr>waveFunction = WaveFunction_new rid (length (getDimensions (waveFunction state))),
      sourceNode = sourceNode state,
      connections = connections state,
      metadata = metadata state\<rparr>"

text \<open>
  \<open>calculateCoherence\<close> reads \<open>dims2[i]\<close> for every index of \<open>dims1\<close>; where the second
  wave function is shorter the read of \<open>.imag\<close> throws.
\<close>

definition calculateCoherence :: "WaveFunction \<Rightarrow> WaveFunction \<Rightarrow> js_error + real" where
  "calculateCoherence wave1 wave2 =
     (let dims1 = getDimensions wave1; dims2 = getDimensions wave2
      in if length dims2 < length dims1
         then Inl (TypeError ''Cannot read properties of undefined (reading imag)'')
         else Inr \<bar>foldl (\<lambda>c i.
                      c + cos (atan2 (imag_c (dims1 ! i)) (real_c (dims1 ! i))
                               - atan2 (imag_c (dims2 ! i)) (real_c (dims2 ! i))))
                    0 [0..<length dims1] / real (length dims1)\<bar>)"

definition calculateEntanglementEntropy :: "WaveFunction \<Rightarrow> real" where
  "calculateEntanglementEntropy wave =
     foldl (\<lambda>ent dim.
         let probability = real_c dim * real_c dim + imag_c dim * imag_c dim
         in if 0 < probability then ent - probability * ln probability else ent)
       0 (getDimensions wave)"

text \<open>\<open>states.find(s => s.sourceNode.id === connectionId)\<close>.\<close>

definition find_state :: "EncodedState list \<Rightarrow> string \<Rightarrow> EncodedState option" where
  "find_state sts connectionId = find (\<lambda>s. node_id (sourceNode s) = connectionId) sts"

text \<open>
  The coherence that \<open>calculateMetrics\<close> adds up for one state: over its connections,
  in order, stopping at the first exception.
\<close>

fun coherence_over :: "EncodedState list \<Rightarrow> EncodedState \<Rightarrow> string list \<Rightarrow> real
    \<Rightarrow> js_error + real" where
  "coherence_over sts state [] acc = Inr acc"
| "coherence_over sts state (connectionId # rest) acc =
     (case find_state sts connectionId of
        None \<Rightarrow> coherence_over sts state rest acc
      | Some connectedState \<Rightarrow>
          (case calculateCoherence (waveFunction state) (waveFunction connectedState) of
             Inl e \<Rightarrow> Inl e
           | Inr c \<Rightarrow> coherence_over sts state rest (acc + c)))"

text \<open>The \<open>forEach\<close> of \<open>calculateMetrics\<close> over the states, on its three running sums.\<close>

fun metrics_over :: "EncodedState list \<Rightarrow> EncodedState list \<Rightarrow> real \<times> real \<times> real
    \<Rightarrow> js_error + real \<times> real \<times> real" where
  "metrics_over sts [] running = Inr running"
| "metrics_over sts (state # rest) (energy_sum, coherence_sum, entropy_sum) =
     (let energy_sum' = foldl (\<lambda>e dim. e + (real_c dim * real_c dim + imag_c dim * imag_c dim))
                          energy_sum (getDimensions (waveFunction state))
      in case coherence_over sts state (connections state) coherence_sum of
           Inl e \<Rightarrow> Inl e
         | Inr coherence_sum' \<Rightarrow>
             metrics_over sts rest
               (energy_sum', coherence_sum',
                entropy_sum + calculateEntanglementEntropy (waveFunction state)))"

definition calculateMetrics :: "EncodedState list \<Rightarrow> js_error + Metrics" where
  "calculateMetrics sts =
     (case metrics_over sts sts (0, 0, 0) of
        Inl e \<Rightarrow> Inl e
      | Inr (energy_sum, coherence_sum, entropy_sum) \<Rightarrow>
          let connectionCount = foldl (\<lambda>n state. n + length (connections state)) 0 sts
          in Inr \<lparr>totalEnergy = energy_sum,
                  averageCoherence = (if 0 < connectionCount
                                      then coherence_sum / real connectionCount else 0),
                  entanglementEntropy = entropy_sum / real (length sts)\<rparr>)"

text \<open>
  \<open>recordTimeStep\<close> appends one step to the history. With \<open>trackMetrics\<close> the states are
  cloned, each clone drawing the next identifier of the supply \<open>ids\<close> (the counter \<open>k\<close>
  is returned advanced); without, the step holds the states themselves.
\<close>

definition recordTimeStep :: "EvolutionOptions \<Rightarrow> (nat \<Rightarrow> string) \<Rightarrow> nat \<Rightarrow> TimeStep list
    \<Rightarrow> EncodedState list \<Rightarrow> real \<Rightarrow> js_error + TimeStep list \<times> nat" where
  "recordTimeStep opts ids k history sts t =
     (case calculateMetrics sts of
        Inl e \<Rightarrow> Inl e
      | Inr m \<Rightarrow>
          if \<not> trackMetrics opts
          then Inr (history @ [\<lparr>time = t, states = sts, metrics = m\<rparr>], k)
          else Inr (history @ [\<lparr>time = t,
                                states = map (\<lambda>(j, s). cloneState (ids (k + j)) s)
                                           (enumerate 0 sts),
                                metrics = m\<rparr>],
                    k + length sts))"

text \<open>
  The \<open>while\<close> loop of \<open>evolveState\<close>. It does not end when \<open>timeStep\<close> is not positive
  and \<open>totalTime\<close> is not negative; then the value is \<open>None\<close>.
\<close>

partial_function (option) evolve_loop :: "EvolutionOptions \<Rightarrow> (nat \<Rightarrow> string) \<Rightarrow> real
    \<Rightarrow> EncodedState \<Rightarrow> TimeStep list \<Rightarrow> nat \<Rightarrow> (js_error + EncodedState \<times> TimeStep list) option" where
  "evolve_loop opts ids currentTime currentState history k =
     (if currentTime \<le> totalTime opts
      then
        let applied = foldl (\<lambda>w operator. op_apply operator w currentTime)
                        (waveFunction currentState) (operators opts);
            evolved = currentState\<lparr>waveFunction := WaveFunction_normalize applied\<rparr>
        in case recordTimeStep opts ids k history [evolved] currentTime of
             Inl e \<Rightarrow> Some (Inl e)
           | Inr (history', k') \<Rightarrow>
               evolve_loop opts ids (currentTime + timeStep opts) evolved history' k'
      else Some (Inr (currentState, history)))"

text \<open>
  \<open>evolveState\<close>. Without \<open>trackMetrics\<close> every step of the returned history holds the
  one state object of the loop, which the caller therefore sees as the loop left it.
\<close>

definition evolveState :: "EvolutionOptions \<Rightarrow> (nat \<Rightarrow> string) \<Rightarrow> EncodedState
    \<Rightarrow> (js_error + TimeStep list) option" where
  "evolveState opts ids initialState =
     (case evolve_loop opts ids 0 (cloneState (ids 0) initialState) [] 1 of
        None \<Rightarrow> None
      | Some (Inl e) \<Rightarrow> Some (Inl e)
      | Some (Inr (final, history)) \<Rightarrow>
          Some (Inr (if trackMetrics opts then history
                     else map (\<lambda>step. step\<lparr>states := [final]\<rparr>) history)))"

text \<open>The options of the dissipation scenario: rate 0.5, total time 1.0, time step 0.1.\<close>

definition dissipation_options :: EvolutionOptions where
  "dissipation_options =
     default_options\<lparr>timeStep := 1 / 10, totalTime := 1,
       operators := [createDissipationOperator (1 / 2)]\<rparr>"

text \<open>The sequence of \<open>metrics.totalEnergy\<close> of a history.\<close>

definition energies :: "TimeStep list \<Rightarrow> real list" where
  "energies history = map (\<lambda>step. totalEnergy (metrics step)) history"

text \<open>Each entry is less than the one before it.\<close>

definition strictly_decreasing :: "real list \<Rightarrow> bool" where
  "strictly_decreasing xs = successively (\<lambda>a b. b < a) xs"

text \<open>A wave function all of whose dimensions are zero.\<close>

definition zero_wave :: "WaveFunction \<Rightarrow> bool" where
  "zero_wave w = (wave_dimensions w = replicate (length (wave_dimensions w)) (Complex_new 0 0))"


section \<open>Pattern detection (\<open>lib/analysis/patterns.ts\<close>)\<close>

text \<open>
  The scores of the detector are quotients whose divisor can be zero, so its arithmetic is
  the double arithmetic of \<open>js_num\<close>: every \<open>+\<close>, \<open>-\<close>, \<open>*\<close>, \<open>/\<close> and \<open>Math\<close> function of
  the source is the operation of that name below, in the order in which JavaScript
  evaluates it. The amplitudes, phases and components that a wave function stores are
  finite and enter as \<open>Num\<close>; a length enters as \<open>Num (real n)\<close>.
\<close>

datatype PatternType = Cluster | Sequence | Similarity | Anomaly

record PatternMetadata =
  pattern_timestamp :: real
  algorithm :: string
  pattern_parameters :: "(string \<times> js_num) list"

record Pattern =
  pattern_type :: PatternType
  pattern_states :: "string list"
  score :: js_num
  pattern_properties :: "(string \<times> js_num) list"
  pattern_metadata :: PatternMetadata

record PatternDetectionOptions =
  minClusterSize :: js_num
  similarityThreshold :: js_num
  coherenceWeight :: js_num
  amplitudeWeight :: js_num
  phaseWeight :: js_num
  maxPatterns :: js_num

text \<open>
  The options the constructor of \<open>PatternDetector\<close> starts from; a decimal literal is the
  double nearest to it. The constructor checks none of the options it is given.
\<close>

definition default_detection :: PatternDetectionOptions where
  "default_detection =
     \<lparr>minClusterSize = Num 3, similarityThreshold = fl (7 / 10), coherenceWeight = fl (4 / 10),
      amplitudeWeight = fl (3 / 10), phaseWeight = fl (3 / 10), maxPatterns = Num 10\<rparr>"

text \<open>\<open>Math.sqrt(c.real * c.real + c.imag * c.imag)\<close>.\<close>

definition rounded_magnitude :: "Complex \<Rightarrow> js_num" where
  "rounded_magnitude c =
     js_sqrt (js_add (js_mul (Num (real_c c)) (Num (real_c c)))
                     (js_mul (Num (imag_c c)) (Num (imag_c c))))"

text \<open>\<open>Math.atan2(c.imag, c.real)\<close>.\<close>

definition rounded_phase :: "Complex \<Rightarrow> js_num" where
  "rounded_phase c = fl (atan2 (imag_c c) (real_c c))"

text \<open>
  \<open>calculateWavefunctionSimilarity\<close> reads \<open>dims2[i]\<close> at every index of \<open>dims1\<close> and
  throws where the second wave function is shorter.
\<close>

definition calculateWavefunctionSimilarity :: "WaveFunction \<Rightarrow> WaveFunction \<Rightarrow> js_error + js_num" where
  "calculateWavefunctionSimilarity wave1 wave2 =
     (let dims1 = getDimensions wave1; dims2 = getDimensions wave2
      in if length dims2 < length dims1
         then Inl (TypeError ''Cannot read properties of undefined (reading real)'')
         else Inr (js_div
                (foldl (\<lambda>sim i.
                     let mag1 = rounded_magnitude (dims1 ! i);
                         mag2 = rounded_magnitude (dims2 ! i)
                     in js_add sim (js_sub (Num 1) (js_abs (js_sub mag1 mag2))))
                   (Num 0) [0..<length dims1])
                (Num (real (length dims1)))))"

definition calculateStateSimilarity :: "PatternDetectionOptions \<Rightarrow> EncodedState \<Rightarrow> EncodedState
    \<Rightarrow> js_error + js_num" where
  "calculateStateSimilarity opts state1 state2 =
     (let amplitudeSimilarity =
            js_sub (Num 1)
              (js_abs (js_sub (Num (getAmplitude (waveFunction state1)))
                              (Num (getAmplitude (waveFunction state2)))));
          phaseSimilarity =
            js_sub (Num 1)
              (js_div (js_abs (js_sub (Num (getPhase (waveFunction state1)))
                                      (Num (getPhase (waveFunction state2)))))
                      (js_mul (Num 2) Math_PI))
      in case calculateWavefunctionSimilarity (waveFunction state1) (waveFunction state2) of
           Inl e \<Rightarrow> Inl e
         | Inr dimensionSimilarity \<Rightarrow>
             Inr (js_add
                    (js_add (js_mul amplitudeSimilarity (amplitudeWeight opts))
                            (js_mul phaseSimilarity (phaseWeight opts)))
                    (js_mul dimensionSimilarity
                       (js_sub (js_sub (Num 1) (amplitudeWeight opts)) (phaseWeight opts)))))"

text \<open>
  \<open>calculateStateCoherence\<close> has no guard: a wave function of one dimension gives
  \<open>0 / 0\<close>.
\<close>

definition calculateStateCoherence :: "EncodedState \<Rightarrow> js_num" where
  "calculateStateCoherence state =
     (let dims = getDimensions (waveFunction state)
      in js_div
           (js_add
              (js_div
                 (foldl (\<lambda>c i.
                      js_add c (js_cos (js_sub (rounded_phase (dims ! (i - 1)))
                                               (rounded_phase (dims ! i)))))
                    (Num 0) [1..<length dims])
                 (js_sub (Num (real (length dims))) (Num 1)))
              (Num 1))
           (Num 2))"

definition calculateVariance :: "js_num list \<Rightarrow> js_num" where
  "calculateVariance vs =
     (let mean = js_div (foldl (\<lambda>acc v. js_add acc v) (Num 0) vs) (Num (real (length vs)));
          squaredDiffs = map (\<lambda>v. js_mul (js_sub v mean) (js_sub v mean)) vs
      in js_div (foldl (\<lambda>acc d. js_add acc d) (Num 0) squaredDiffs) (Num (real (length vs))))"

text \<open>
  The sum of the similarities of a list of pairs, taken in order; the first exception
  ends it.
\<close>

fun similarity_total :: "PatternDetectionOptions \<Rightarrow> (EncodedState \<times> EncodedState) list \<Rightarrow> js_num
    \<Rightarrow> js_error + js_num" where
  "similarity_total opts [] acc = Inr acc"
| "similarity_total opts (pair # rest) acc =
     (case calculateStateSimilarity opts (fst pair) (snd pair) of
        Inl e \<Rightarrow> Inl e
      | Inr s \<Rightarrow> similarity_total opts rest (js_add acc s))"

text \<open>The pairs \<open>(xs[i], xs[j])\<close> with \<open>i < j\<close>, in the order of the two nested loops.\<close>

definition index_pairs :: "'a list \<Rightarrow> ('a \<times> 'a) list" where
  "index_pairs xs =
     concat (map (\<lambda>i. map (\<lambda>j. (xs ! i, xs ! j)) [i + 1..<length xs]) [0..<length xs])"

definition calculateClusterCoherence :: "PatternDetectionOptions \<Rightarrow> EncodedState list
    \<Rightarrow> js_error + js_num" where
  "calculateClusterCoherence opts cluster =
     (case similarity_total opts (index_pairs cluster) (Num 0) of
        Inl e \<Rightarrow> Inl e
      | Inr totalCoherence \<Rightarrow>
          let pairs = length (index_pairs cluster)
          in Inr (if 0 < pairs then js_div totalCoherence (Num (real pairs)) else Num 0))"

text \<open>
  \<open>calculateClusterDensity\<close> divides by \<open>cluster.length * (totalStates - 1)\<close> with no guard
  of the kind its siblings have (\<open>pairs > 0 ? total / pairs : 0\<close>).
\<close>

definition calculateClusterDensity :: "EncodedState list \<Rightarrow> nat \<Rightarrow> js_num" where
  "calculateClusterDensity cluster totalStates =
     (let conns = set_spread (concat (map connections cluster));
          internalConnections =
            filter (\<lambda>conn. list_ex (\<lambda>state. node_id (sourceNode state) = conn) cluster) conns
      in js_div (Num (real (length internalConnections)))
           (js_mul (Num (real (length cluster))) (js_sub (Num (real totalStates)) (Num 1))))"

definition calculateClusterStability :: "EncodedState list \<Rightarrow> js_num" where
  "calculateClusterStability cluster =
     (let amplitudes = map (\<lambda>state. Num (getAmplitude (waveFunction state))) cluster;
          phases = map (\<lambda>state. Num (getPhase (waveFunction state))) cluster;
          amplitudeVariance = calculateVariance amplitudes;
          phaseVariance = calculateVariance phases
      in js_exp (js_neg (js_add amplitudeVariance phaseVariance)))"

text \<open>The similarities of consecutive states, as both sequence functions walk them.\<close>

fun consecutive_similarities :: "PatternDetectionOptions \<Rightarrow> EncodedState list
    \<Rightarrow> js_error + js_num list" where
  "consecutive_similarities opts (a # b # rest) =
     (case calculateStateSimilarity opts a b of
        Inl e \<Rightarrow> Inl e
      | Inr s \<Rightarrow>
          (case consecutive_similarities opts (b # rest) of
             Inl e \<Rightarrow> Inl e
           | Inr ss \<Rightarrow> Inr (s # ss)))"
| "consecutive_similarities opts short = Inr []"

definition calculateSequenceCoherence :: "PatternDetectionOptions \<Rightarrow> EncodedState list
    \<Rightarrow> js_error + js_num" where
  "calculateSequenceCoherence opts sequence =
     (case consecutive_similarities opts sequence of
        Inl e \<Rightarrow> Inl e
      | Inr ss \<Rightarrow>
          Inr (if 1 < length sequence
               then js_div (foldl (\<lambda>acc s. js_add acc s) (Num 0) ss)
                      (js_sub (Num (real (length sequence))) (Num 1))
               else Num 0))"

definition calculateSequenceStability :: "PatternDetectionOptions \<Rightarrow> EncodedState list
    \<Rightarrow> js_error + js_num" where
  "calculateSequenceStability opts sequence =
     (case consecutive_similarities opts sequence of
        Inl e \<Rightarrow> Inl e
      | Inr changes \<Rightarrow> Inr (js_sub (Num 1) (calculateVariance changes)))"

definition calculateAverageSimilarity :: "PatternDetectionOptions \<Rightarrow> EncodedState list
    \<Rightarrow> js_error + js_num" where
  "calculateAverageSimilarity opts sts =
     (case similarity_total opts (index_pairs sts) (Num 0) of
        Inl e \<Rightarrow> Inl e
      | Inr totalSimilarity \<Rightarrow>
          let pairs = length (index_pairs sts)
          in Inr (if 0 < pairs then js_div totalSimilarity (Num (real pairs)) else Num 0))"

definition calculateGroupCoherence :: "EncodedState list \<Rightarrow> js_num" where
  "calculateGroupCoherence sts =
     (let coherences = map calculateStateCoherence sts
      in js_div (foldl (\<lambda>acc c. js_add acc c) (Num 0) coherences) (Num (real (length coherences))))"

definition calculateAverageAmplitude :: "EncodedState list \<Rightarrow> js_num" where
  "calculateAverageAmplitude sts =
     js_div (foldl (\<lambda>acc state. js_add acc (Num (getAmplitude (waveFunction state)))) (Num 0) sts)
       (Num (real (length sts)))"

definition calculateAverageCoherence :: "EncodedState list \<Rightarrow> js_num" where
  "calculateAverageCoherence sts =
     js_div (foldl (\<lambda>acc state. js_add acc (calculateStateCoherence state)) (Num 0) sts)
       (Num (real (length sts)))"

definition calculateAverageConnections :: "EncodedState list \<Rightarrow> js_num" where
  "calculateAverageConnections sts =
     js_div (foldl (\<lambda>acc state. js_add acc (Num (real (length (connections state))))) (Num 0) sts)
       (Num (real (length sts)))"

text \<open>The identifiers of the source nodes of a list of states.\<close>

definition state_ids :: "EncodedState list \<Rightarrow> string set" where
  "state_ids sts = set (map (\<lambda>s. node_id (sourceNode s)) sts)"

lemma find_state_Some:
  "find_state sts c = Some s \<Longrightarrow> c \<in> state_ids sts \<and> node_id (sourceNode s) = c"
  by (auto simp: find_state_def state_ids_def find_Some_iff)

text \<open>
  The queue loop of \<open>expandCluster\<close>. An identifier is added to the cluster only when it
  is the identifier of a state and not yet visited, which bounds the additions.
\<close>

function expandCluster_loop :: "PatternDetectionOptions \<Rightarrow> EncodedState \<Rightarrow> EncodedState list
    \<Rightarrow> string list \<Rightarrow> EncodedState list \<Rightarrow> string set
    \<Rightarrow> js_error + EncodedState list \<times> string set" where
  "expandCluster_loop opts state sts [] cluster visited = Inr (cluster, visited)"
| "expandCluster_loop opts state sts (connectionId # queue) cluster visited =
     (if connectionId \<in> visited then expandCluster_loop opts state sts queue cluster visited
      else
        case find_state sts connectionId of
          None \<Rightarrow> expandCluster_loop opts state sts queue cluster visited
        | Some connectedState \<Rightarrow>
            (case calculateStateSimilarity opts state connectedState of
               Inl e \<Rightarrow> Inl e
             | Inr sim \<Rightarrow>
                 if js_ge sim (similarityThreshold opts)
                 then expandCluster_loop opts state sts (queue @ connections connectedState)
                        (cluster @ [connectedState]) (insert connectionId visited)
                 else expandCluster_loop opts state sts queue cluster visited))"
  by pat_completeness auto
termination
proof (relation "measures
    [\<lambda>(opts, state, sts, queue, cluster, visited). card (state_ids sts - visited),
     \<lambda>(opts, state, sts, queue, cluster, visited). length queue]", goal_cases)
  case 1
  then show ?case by simp
next
  case (2 opts state sts connectionId queue cluster visited)
  then show ?case by simp
next
  case (3 opts state sts connectionId queue cluster visited)
  then show ?case by simp
next
  case (4 opts state sts connectionId queue cluster visited connectedState sim)
  from 4(2) have "connectionId \<in> state_ids sts" by (simp add: find_state_Some)
  with 4(1) have "card (state_ids sts - insert connectionId visited) < card (state_ids sts - visited)"
    by (intro psubset_card_mono) (auto simp: state_ids_def)
  then show ?case by simp
next
  case (5 opts state sts connectionId queue cluster visited connectedState sim)
  then show ?case by simp
qed

definition expandCluster :: "PatternDetectionOptions \<Rightarrow> EncodedState \<Rightarrow> EncodedState list
    \<Rightarrow> string set \<Rightarrow> js_error + EncodedState list \<times> string set" where
  "expandCluster opts state sts visited =
     expandCluster_loop opts state sts (connections state) [state]
       (insert (node_id (sourceNode state)) visited)"

text \<open>
  The creation time of a pattern is read from \<open>Date.now()\<close>: the \<open>n\<close>-th pattern that a
  call of \<open>detectPatterns\<close> creates gets \<open>clock n\<close>. A detector is told how many patterns
  were created before it started (\<open>k0\<close>).
\<close>

fun detectClusters_loop :: "PatternDetectionOptions \<Rightarrow> (nat \<Rightarrow> real) \<Rightarrow> nat \<Rightarrow> EncodedState list
    \<Rightarrow> EncodedState list \<Rightarrow> string set \<Rightarrow> Pattern list \<Rightarrow> js_error + Pattern list" where
  "detectClusters_loop opts clock k0 sts [] visited patterns = Inr patterns"
| "detectClusters_loop opts clock k0 sts (state # rest) visited patterns =
     (if node_id (sourceNode state) \<in> visited
      then detectClusters_loop opts clock k0 sts rest visited patterns
      else
        case expandCluster opts state sts visited of
          Inl e \<Rightarrow> Inl e
        | Inr (cluster, visited') \<Rightarrow>
            if js_ge (Num (real (length cluster))) (minClusterSize opts)
            then
              (case calculateClusterCoherence opts cluster of
                 Inl e \<Rightarrow> Inl e
               | Inr coh \<Rightarrow>
                   let density = calculateClusterDensity cluster (length sts)
                   in detectClusters_loop opts clock k0 sts rest visited'
                        (patterns @
                          [\<lparr>pattern_type = Cluster,
                            pattern_states = map (\<lambda>s. node_id (sourceNode s)) cluster,
                            score = js_div (js_add coh density) (Num 2),
                            pattern_properties =
                              [(''size'', Num (real (length cluster))), (''density'', density),
                               (''coherence'', coh),
                               (''stability'', calculateClusterStability cluster)],
                            pattern_metadata =
                              \<lparr>pattern_timestamp = clock (k0 + length patterns),
                               algorithm = ''density-based-clustering'',
                               pattern_parameters =
                                 [(''minSize'', minClusterSize opts),
                                  (''similarityThreshold'', similarityThreshold opts)]\<rparr>\<rparr>]))
            else detectClusters_loop opts clock k0 sts rest visited' patterns)"

definition detectClusters :: "PatternDetectionOptions \<Rightarrow> (nat \<Rightarrow> real) \<Rightarrow> nat \<Rightarrow> EncodedState list
    \<Rightarrow> js_error + Pattern list" where
  "detectClusters opts clock k0 sts = detectClusters_loop opts clock k0 sts sts {} []"

text \<open>
  \<open>findMostCoherentConnection\<close>: over the connections in order, the running maximum
  starts at \<open>-1\<close> and only a strictly larger coherence replaces the candidate.
\<close>

definition most_coherent_step :: "EncodedState list \<Rightarrow> string set \<Rightarrow> js_num \<times> EncodedState option
    \<Rightarrow> string \<Rightarrow> js_num \<times> EncodedState option" where
  "most_coherent_step sts visited best connectionId =
     (if connectionId \<in> visited then best
      else
        case find_state sts connectionId of
          None \<Rightarrow> best
        | Some connectedState \<Rightarrow>
            let coh = calculateStateCoherence connectedState
            in if js_gt coh (fst best) then (coh, Some connectedState) else best)"

definition findMostCoherentConnection :: "EncodedState \<Rightarrow> EncodedState list \<Rightarrow> string set
    \<Rightarrow> EncodedState option" where
  "findMostCoherentConnection state sts visited =
     snd (foldl (most_coherent_step sts visited) (Num (- 1), None) (connections state))"

lemma most_coherent_fold_fresh:
  "(\<forall>s. snd best = Some s \<longrightarrow> node_id (sourceNode s) \<in> state_ids sts - visited) \<Longrightarrow>
   snd (foldl (most_coherent_step sts visited) best conns) = Some n \<Longrightarrow>
   node_id (sourceNode n) \<in> state_ids sts - visited"
proof (induction conns arbitrary: best)
  case Nil
  then show ?case by simp
next
  case (Cons c conns)
  have "\<forall>s. snd (most_coherent_step sts visited best c) = Some s
      \<longrightarrow> node_id (sourceNode s) \<in> state_ids sts - visited"
    using Cons.prems(1)
    by (auto simp: most_coherent_step_def Let_def dest: find_state_Some split: option.splits)
  from Cons.IH [OF this] Cons.prems(2) show ?case by simp
qed

lemma findMostCoherentConnection_fresh:
  "findMostCoherentConnection state sts visited = Some n \<Longrightarrow>
   node_id (sourceNode n) \<in> state_ids sts - visited"
  unfolding findMostCoherentConnection_def
  by (rule most_coherent_fold_fresh [of "(Num (- 1), None)"]) simp_all

text \<open>The \<open>while (true)\<close> loop of \<open>findSequence\<close>; every round visits a state not visited before.\<close>

function findSequence_loop :: "EncodedState list \<Rightarrow> EncodedState \<Rightarrow> EncodedState list \<Rightarrow> string set
    \<Rightarrow> EncodedState list \<times> string set" where
  "findSequence_loop sts currentState sequence visited =
     (case findMostCoherentConnection currentState sts visited of
        None \<Rightarrow> (sequence, visited)
      | Some nextState \<Rightarrow>
          findSequence_loop sts nextState (sequence @ [nextState])
            (insert (node_id (sourceNode nextState)) visited))"
  by pat_completeness auto
termination
proof (relation "measure (\<lambda>(sts, currentState, sequence, visited). card (state_ids sts - visited))",
    goal_cases)
  case 1
  then show ?case by simp
next
  case (2 sts currentState sequence visited nextState)
  then have "node_id (sourceNode nextState) \<in> state_ids sts - visited"
    by (rule findMostCoherentConnection_fresh)
  then have "card (state_ids sts - insert (node_id (sourceNode nextState)) visited)
      < card (state_ids sts - visited)"
    by (intro psubset_card_mono) (auto simp: state_ids_def)
  then show ?case by simp
qed

definition findSequence :: "EncodedState \<Rightarrow> EncodedState list \<Rightarrow> string set
    \<Rightarrow> EncodedState list \<times> string set" where
  "findSequence state sts visited =
     findSequence_loop sts state [state] (insert (node_id (sourceNode state)) visited)"

fun detectSequences_loop :: "PatternDetectionOptions \<Rightarrow> (nat \<Rightarrow> real) \<Rightarrow> nat \<Rightarrow> EncodedState list
    \<Rightarrow> EncodedState list \<Rightarrow> string set \<Rightarrow> Pattern list \<Rightarrow> js_error + Pattern list" where
  "detectSequences_loop opts clock k0 sts [] visited patterns = Inr patterns"
| "detectSequences_loop opts clock k0 sts (state # rest) visited patterns =
     (if node_id (sourceNode state) \<in> visited
      then detectSequences_loop opts clock k0 sts rest visited patterns
      else
        case findSequence state sts visited of
          (sequence, visited') \<Rightarrow>
            if js_ge (Num (real (length sequence))) (minClusterSize opts)
            then
              (case calculateSequenceCoherence opts sequence of
                 Inl e \<Rightarrow> Inl e
               | Inr coh \<Rightarrow>
                   (case calculateSequenceStability opts sequence of
                      Inl e \<Rightarrow> Inl e
                    | Inr stability \<Rightarrow>
                        detectSequences_loop opts clock k0 sts rest visited'
                          (patterns @
                            [\<lparr>pattern_type = Sequence,
                              pattern_states = map (\<lambda>s. node_id (sourceNode s)) sequence,
                              score = coh,
                              pattern_properties =
                                [(''size'', Num (real (length sequence))), (''coherence'', coh),
                                 (''stability'', stability)],
                              pattern_metadata =
                                \<lparr>pattern_timestamp = clock (k0 + length patterns),
                                 algorithm = ''sequential-pattern-mining'',
                                 pattern_parameters =
                                   [(''minSize'', minClusterSize opts),
                                    (''coherenceWeight'', coherenceWeight opts)]\<rparr>\<rparr>])))
            else detectSequences_loop opts clock k0 sts rest visited' patterns)"

definition detectSequences :: "PatternDetectionOptions \<Rightarrow> (nat \<Rightarrow> real) \<Rightarrow> nat \<Rightarrow> EncodedState list
    \<Rightarrow> js_error + Pattern list" where
  "detectSequences opts clock k0 sts = detectSequences_loop opts clock k0 sts sts {} []"

text \<open>
  The \<open>filter\<close> of \<open>detectSimilarities\<close>: a state other than the \<open>i\<close>-th and not visited is
  kept when its similarity to the \<open>i\<close>-th reaches the threshold; the similarity is computed
  only after the first two tests have passed.
\<close>

fun similar_states :: "PatternDetectionOptions \<Rightarrow> EncodedState \<Rightarrow> nat \<Rightarrow> string set
    \<Rightarrow> (nat \<times> EncodedState) list \<Rightarrow> js_error + EncodedState list" where
  "similar_states opts pivot i visited [] = Inr []"
| "similar_states opts pivot i visited ((j, state) # rest) =
     (if i \<noteq> j \<and> node_id (sourceNode state) \<notin> visited
      then
        (case calculateStateSimilarity opts pivot state of
           Inl e \<Rightarrow> Inl e
         | Inr sim \<Rightarrow>
             (case similar_states opts pivot i visited rest of
                Inl e \<Rightarrow> Inl e
              | Inr kept \<Rightarrow>
                  Inr (if js_ge sim (similarityThreshold opts) then state # kept else kept)))
      else similar_states opts pivot i visited rest)"

fun detectSimilarities_loop :: "PatternDetectionOptions \<Rightarrow> (nat \<Rightarrow> real) \<Rightarrow> nat \<Rightarrow> EncodedState list
    \<Rightarrow> nat list \<Rightarrow> string set \<Rightarrow> Pattern list \<Rightarrow> js_error + Pattern list" where
  "detectSimilarities_loop opts clock k0 sts [] visited patterns = Inr patterns"
| "detectSimilarities_loop opts clock k0 sts (i # rest) visited patterns =
     (if node_id (sourceNode (sts ! i)) \<in> visited
      then detectSimilarities_loop opts clock k0 sts rest visited patterns
      else
        case similar_states opts (sts ! i) i visited (enumerate 0 sts) of
          Inl e \<Rightarrow> Inl e
        | Inr similarStates \<Rightarrow>
            if 0 < length similarStates
            then
              (let group = sts ! i # similarStates;
                   visited' = visited \<union> state_ids group
               in case calculateAverageSimilarity opts group of
                    Inl e \<Rightarrow> Inl e
                  | Inr avgSimilarity \<Rightarrow>
                      detectSimilarities_loop opts clock k0 sts rest visited'
                        (patterns @
                          [\<lparr>pattern_type = Similarity,
                            pattern_states = map (\<lambda>s. node_id (sourceNode s)) group,
                            score = avgSimilarity,
                            pattern_properties =
                              [(''size'', Num (real (length group))),
                               (''coherence'', calculateGroupCoherence group),
                               (''significance'', avgSimilarity)],
                            pattern_metadata =
                              \<lparr>pattern_timestamp = clock (k0 + length patterns),
                               algorithm = ''similarity-grouping'',
                               pattern_parameters =
                                 [(''threshold'', similarityThreshold opts)]\<rparr>\<rparr>]))
            else detectSimilarities_loop opts clock k0 sts rest visited patterns)"

definition detectSimilarities :: "PatternDetectionOptions \<Rightarrow> (nat \<Rightarrow> real) \<Rightarrow> nat
    \<Rightarrow> EncodedState list \<Rightarrow> js_error + Pattern list" where
  "detectSimilarities opts clock k0 sts =
     detectSimilarities_loop opts clock k0 sts [0..<length sts] {} []"

definition detectAnomalies :: "PatternDetectionOptions \<Rightarrow> (nat \<Rightarrow> real) \<Rightarrow> nat
    \<Rightarrow> EncodedState list \<Rightarrow> Pattern list" where
  "detectAnomalies opts clock k0 sts =
     (let avgAmplitude = calculateAverageAmplitude sts;
          avgCoherence = calculateAverageCoherence sts;
          avgConnections = calculateAverageConnections sts
      in foldl (\<lambda>patterns state.
           let amplitudeDeviation =
                 js_abs (js_sub (Num (getAmplitude (waveFunction state))) avgAmplitude);
               coherenceDeviation = js_abs (js_sub (calculateStateCoherence state) avgCoherence);
               connectionsDeviation =
                 js_abs (js_sub (Num (real (length (connections state)))) avgConnections);
               anomalyScore =
                 js_add
                   (js_add (js_mul amplitudeDeviation (amplitudeWeight opts))
                           (js_mul coherenceDeviation (coherenceWeight opts)))
                   (js_mul (js_div connectionsDeviation avgConnections)
                      (js_sub (js_sub (Num 1) (amplitudeWeight opts)) (coherenceWeight opts)))
           in if js_gt anomalyScore (similarityThreshold opts)
              then patterns @
                [\<lparr>pattern_type = Anomaly,
                  pattern_states = [node_id (sourceNode state)],
                  score = anomalyScore,
                  pattern_properties =
                    [(''significance'', anomalyScore),
                     (''amplitudeDeviation'', amplitudeDeviation),
                     (''coherenceDeviation'', coherenceDeviation),
                     (''connectionsDeviation'', connectionsDeviation)],
                  pattern_metadata =
                    \<lparr>pattern_timestamp = clock (k0 + length patterns),
                     algorithm = ''statistical-anomaly-detection'',
                     pattern_parameters =
                       [(''amplitudeWeight'', amplitudeWeight opts),
                        (''coherenceWeight'', coherenceWeight opts)]\<rparr>\<rparr>]
              else patterns)
         [] sts)"

text \<open>
  \<open>Array.prototype.slice(0, end)\<close>: \<open>end\<close> is converted to an integer (\<open>NaN\<close> to 0, a
  finite number truncated toward zero); a negative \<open>end\<close> counts from the end of the
  array.
\<close>

definition js_trunc :: "real \<Rightarrow> int" where
  "js_trunc x = (if 0 \<le> x then \<lfloor>x\<rfloor> else \<lceil>x\<rceil>)"

definition slice_from_start :: "'a list \<Rightarrow> js_num \<Rightarrow> 'a list" where
  "slice_from_start xs e =
     (let len = int (length xs);
          final =
            (case e of
               NaN \<Rightarrow> 0
             | PInf \<Rightarrow> len
             | NInf \<Rightarrow> 0
             | Num x \<Rightarrow>
                 let relativeEnd = js_trunc x
                 in if relativeEnd < 0 then max (len + relativeEnd) 0 else min relativeEnd len)
      in take (nat final) xs)"

text \<open>
  \<open>sort((a, b) => b.score - a.score)\<close>. The sort of JavaScript is stable and reads a
  comparator result \<open>NaN\<close> as \<open>+0\<close>; \<open>comes_after a b\<close> says that the comparator puts \<open>a\<close>
  behind \<open>b\<close>. When the comparator is a consistent order on the elements, which it is when
  every result is 0, the standard fixes the result and every stable sort returns it; the
  embedding takes the insertion sort. \<open>insert_sorted\<close> works on the reversed sorted prefix.
\<close>

definition compare_scores :: "Pattern \<Rightarrow> Pattern \<Rightarrow> js_num" where
  "compare_scores a b = js_sub (score b) (score a)"

definition comes_after :: "Pattern \<Rightarrow> Pattern \<Rightarrow> bool" where
  "comes_after a b =
     (case compare_scores a b of NaN \<Rightarrow> False | v \<Rightarrow> js_gt v (Num 0))"

fun insert_sorted :: "Pattern \<Rightarrow> Pattern list \<Rightarrow> Pattern list" where
  "insert_sorted x [] = [x]"
| "insert_sorted x (y # ys) = (if comes_after y x then y # insert_sorted x ys else x # y # ys)"

definition sort_by_score :: "Pattern list \<Rightarrow> Pattern list" where
  "sort_by_score patterns = rev (foldl (\<lambda>sorted x. insert_sorted x sorted) [] patterns)"

definition detectPatterns :: "PatternDetectionOptions \<Rightarrow> (nat \<Rightarrow> real) \<Rightarrow> EncodedState list
    \<Rightarrow> js_error + Pattern list" where
  "detectPatterns opts clock sts =
     (case detectClusters opts clock 0 sts of
        Inl e \<Rightarrow> Inl e
      | Inr clusters \<Rightarrow>
          (case detectSequences opts clock (length clusters) sts of
             Inl e \<Rightarrow> Inl e
           | Inr sequences \<Rightarrow>
               (case detectSimilarities opts clock (length clusters + length sequences) sts of
                  Inl e \<Rightarrow> Inl e
                | Inr similarities \<Rightarrow>
                    let anomalies = detectAnomalies opts clock
                          (length clusters + length sequences + length similarities) sts;
                        patterns = clusters @ sequences @ similarities @ anomalies
                    in Inr (slice_from_start (sort_by_score patterns) (maxPatterns opts)))))"

text \<open>
  A list of patterns in descending order of score, as the repository's test reads it:
  \<open>patterns[i].score <= patterns[i - 1].score\<close> at every index \<open>i\<close> from 1.
\<close>

fun descending_by_score :: "Pattern list \<Rightarrow> bool" where
  "descending_by_score (a # b # rest) = (js_le (score b) (score a) \<and> descending_by_score (b # rest))"
| "descending_by_score short = True"

section \<open>Example inputs\<close>

definition two_nodes :: Graph where
  "two_nodes = snd (addNode (snd (addNode Graph_new ''n1'' ''Node 1'' ''concept'' None))
     ''n2'' ''Node 2'' ''concept'' None)"

definition linked :: Graph where
  "linked = two_nodes\<lparr>edges := [(''e1'', \<lparr>edge_id = ''e1'', source = ''n1'', target = ''n2'',
     edge_type = ''relates'', weight = 9 / 10, edge_properties = []\<rparr>)]\<rparr>"

definition three_four :: QuantumField where
  "three_four = (QuantumField_new 2)\<lparr>field_values := [Complex_new 3 4, Complex_new 0 0]\<rparr>"



definition used_field :: QuantumField where
  "used_field = (QuantumField_new 2)\<lparr>field_values := [Complex_new 3 4, Complex_new 1 2],
     field_phase := [5, 6], coherence := 7, primeFactors := [2, 3]\<rparr>"

text \<open>The field of two dimensions initialized with the token \<open>d\<close> (code unit 100).\<close>

definition d_field :: QuantumField where
  "d_field = initialize [100] (QuantumField_new 2)"

definition fresh_learner :: FieldLearner where
  "fresh_learner = FieldLearner_new (Some 2) None None None"

definition plain_node :: GraphNode where
  "plain_node = \<lparr>node_id = ''n1'', node_label = ''Test Node'', node_type = ''concept'',
     node_properties = [(''weight'', PNumber 1)], node_position = None\<rparr>"

text \<open>An encoded state of \<open>plain_node\<close> with the given dimensions in its wave function.\<close>

definition state_with :: "Complex list \<Rightarrow> EncodedState" where
  "state_with dims =
     \<lparr>waveFunction = (WaveFunction_new ''w0'' (length dims))\<lparr>wave_dimensions := dims\<rparr>,
      sourceNode = plain_node, connections = [],
      metadata = \<lparr>encodingType = ''semantic-quantum'', timestamp = 0,
        parameters = \<lparr>dimensionality = length dims, phaseResolution = 360, amplitudeScale = 1,
          coherenceThreshold = 1 / 2\<rparr>\<rparr>\<rparr>"

text \<open>
  The options of \<open>new PatternDetector({minClusterSize: 1})\<close>: the defaults, with clusters
  and sequences of one state admitted.
\<close>

definition lone_detection :: PatternDetectionOptions where
  "lone_detection = default_detection\<lparr>minClusterSize := Num 1\<rparr>"

section \<open>Properties of the relational graph\<close>


lemma update_fresh: "k \<notin> fst ` set m \<Longrightarrow> AList.update k v m = m @ [(k, v)]"
  by (induction m) auto

lemma foldl_update_rebuild:
  "distinct (map fst (acc @ m)) \<Longrightarrow> list_all (\<lambda>entry. fst entry = f (snd entry)) m \<Longrightarrow>
   foldl (\<lambda>m v. AList.update (f v) v m) acc (map snd m) = acc @ m"
proof (induction m arbitrary: acc)
  case Nil
  then show ?case by simp
next
  case (Cons x m)
  obtain k v where x: "x = (k, v)" by (cases x)
  from Cons.prems x have fresh: "k \<notin> fst ` set acc" and kv: "f v = k" by auto
  from Cons.prems x have d: "distinct (map fst ((acc @ [(k, v)]) @ m))" by auto
  from Cons.prems have l: "list_all (\<lambda>entry. fst entry = f (snd entry)) m" by simp
  show ?case using Cons.IH [OF d l] fresh kv x by (simp add: update_fresh)
qed

lemma rebuild_keyed: "keyed_by f m \<Longrightarrow> foldl (\<lambda>m v. AList.update (f v) v m) [] (map snd m) = m"
  using foldl_update_rebuild [of "[]" m f] by (simp add: keyed_by_def)

lemma removeNode_fold_subset: "set (foldl (removeNode_step i) es xs) \<subseteq> set es"
proof (induction xs arbitrary: es)
  case Nil
  then show ?case by simp
next
  case (Cons x xs)
  have "set (removeNode_step i es x) \<subseteq> set es"
    by (auto simp: removeNode_step_def AList.delete_eq)
  with Cons.IH [of "removeNode_step i es x"] show ?case by auto
qed

lemma removeNode_fold_key_gone:
  "x \<in> set xs \<Longrightarrow> touches i (snd x) \<Longrightarrow> fst x \<notin> fst ` set (foldl (removeNode_step i) es xs)"
proof (induction xs arbitrary: es)
  case Nil
  then show ?case by simp
next
  case (Cons y xs)
  show ?case
  proof (cases "x = y")
    case True
    have "fst x \<notin> fst ` set (removeNode_step i es x)"
      using Cons.prems(2) by (simp add: removeNode_step_def touches_def AList.delete_notin_dom)
    moreover have "set (foldl (removeNode_step i) (removeNode_step i es x) xs) \<subseteq> set (removeNode_step i es x)"
      by (rule removeNode_fold_subset)
    ultimately show ?thesis using True by auto
  next
    case False
    with Cons.prems have "x \<in> set xs" by simp
    from Cons.IH [OF this Cons.prems(2)] show ?thesis by simp
  qed
qed

lemma removeNode_no_touch: "list_all (\<lambda>entry. \<not> touches i (snd entry)) (edges (removeNode g i))"
proof -
  have "\<not> touches i (snd x)" if "x \<in> set (foldl (removeNode_step i) (edges g) (edges g))" for x
  proof
    assume t: "touches i (snd x)"
    from that removeNode_fold_subset have "x \<in> set (edges g)" by blast
    from removeNode_fold_key_gone [OF this t] that show False by force
  qed
  then show ?thesis by (simp add: removeNode_def list_all_iff)
qed

lemma keyed_by_update: "keyed_by f m \<Longrightarrow> f v = k \<Longrightarrow> keyed_by f (AList.update k v m)"
  unfolding keyed_by_def
proof (intro conjI)
  assume a: "distinct (map fst m) \<and> list_all (\<lambda>entry. fst entry = f (snd entry)) m" and k: "f v = k"
  show "distinct (map fst (AList.update k v m))" using a by (simp add: AList.distinct_update)
  have "list_all P (AList.update k v m)" if "P (k, v)" "list_all P m" for P
    using that by (induction m) auto
  then show "list_all (\<lambda>entry. fst entry = f (snd entry)) (AList.update k v m)"
    using a k by simp
qed

lemma keyed_by_delete: "keyed_by f m \<Longrightarrow> keyed_by f (AList.delete k m)"
  using AList.distinct_delete [of m k]
  by (auto simp: keyed_by_def AList.delete_eq list_all_iff)

lemma keyed_by_Nil: "keyed_by f []"
  by (simp add: keyed_by_def)

lemma keyed_by_rebuild: "keyed_by f acc \<Longrightarrow> keyed_by f (foldl (\<lambda>m v. AList.update (f v) v m) acc xs)"
  by (induction xs arbitrary: acc) (simp_all add: keyed_by_update)

lemma keyed_by_removeNode_fold: "keyed_by f es \<Longrightarrow> keyed_by f (foldl (removeNode_step i) es xs)"
  by (induction xs arbitrary: es) (simp_all add: removeNode_step_def keyed_by_delete)

lemma keyed_by_lookup: "keyed_by f m \<Longrightarrow> map_of m k = Some v \<Longrightarrow> f v = k"
  by (auto simp: keyed_by_def list_all_iff dest!: map_of_SomeD)

lemma Graph_inv_new: "Graph_inv Graph_new"
  by (simp add: Graph_inv_def Graph_new_def keyed_by_Nil)

lemma Graph_inv_addNode: "Graph_inv g \<Longrightarrow> Graph_inv (snd (addNode g uid label ty props))"
  by (simp add: Graph_inv_def addNode_def Let_def keyed_by_update)

lemma Graph_inv_addEdge:
  "Graph_inv g \<Longrightarrow> addEdge g uid src tgt ty w props = Inr (e, g') \<Longrightarrow> Graph_inv g'"
  by (auto simp: Graph_inv_def addEdge_def Let_def keyed_by_update split: if_splits)

lemma Graph_inv_removeNode: "Graph_inv g \<Longrightarrow> Graph_inv (removeNode g i)"
  by (simp add: Graph_inv_def removeNode_def keyed_by_delete keyed_by_removeNode_fold)

lemma Graph_inv_removeEdge: "Graph_inv g \<Longrightarrow> Graph_inv (removeEdge g i)"
  by (simp add: Graph_inv_def removeEdge_def keyed_by_delete)

lemma Graph_inv_updateNodePosition: "Graph_inv g \<Longrightarrow> Graph_inv (updateNodePosition g i x y)"
  by (auto simp: Graph_inv_def updateNodePosition_def
      intro!: keyed_by_update dest: keyed_by_lookup split: option.splits)

lemma Graph_inv_updateEdgeWeight: "Graph_inv g \<Longrightarrow> Graph_inv (updateEdgeWeight g i w)"
  by (auto simp: Graph_inv_def updateEdgeWeight_def
      intro!: keyed_by_update dest: keyed_by_lookup split: option.splits)

lemma Graph_inv_clear: "Graph_inv (clear g)"
  by (simp add: Graph_inv_def clear_def keyed_by_Nil)

lemma Graph_inv_fromJSON: "Graph_inv (fromJSON g d)"
  by (simp add: Graph_inv_def fromJSON_def clear_def keyed_by_rebuild keyed_by_Nil)

lemma list_all_update: "P (k, v) \<Longrightarrow> list_all P m \<Longrightarrow> list_all P (AList.update k v m)"
  by (induction m) auto

lemma updateEdgeWeight_clamps:
  "weights_in_unit g \<Longrightarrow> weights_in_unit (updateEdgeWeight g i w)"
  by (auto simp: weights_in_unit_def updateEdgeWeight_def intro!: list_all_update split: option.splits)

lemma updateEdgeWeight_stored:
  "map_of (edges g) i = Some e \<Longrightarrow>
   map_of (edges (updateEdgeWeight g i w)) i = Some (e\<lparr>weight := max 0 (min 1 w)\<rparr>)"
  by (simp add: updateEdgeWeight_def AList.update_conv')


lemma two_nodes_eq:
  "two_nodes = \<lparr>nodes = [(''n1'', \<lparr>node_id = ''n1'', node_label = ''Node 1'', node_type = ''concept'',
       node_properties = [], node_position = None\<rparr>),
     (''n2'', \<lparr>node_id = ''n2'', node_label = ''Node 2'', node_type = ''concept'',
       node_properties = [], node_position = None\<rparr>)], edges = []\<rparr>"
  by (simp add: two_nodes_def addNode_def Graph_new_def Let_def)

text \<open>
  Claim C4 (every stored edge has its weight in \<open>[0, 1]\<close>, established by \<open>addEdge\<close>).
  \<open>addEdge\<close> stores the weight it is given: between two existing nodes, the weight 5
  is stored as 5, so the graph no longer has all its weights in \<open>[0, 1]\<close>, whereas
  \<open>updateEdgeWeight\<close> with the same 5 stores 1.
\<close>

theorem addEdge_stores_weight_unclamped:
  "addEdge two_nodes ''e1'' ''n1'' ''n2'' ''relates'' (Some 5) None =
     Inr (\<lparr>edge_id = ''e1'', source = ''n1'', target = ''n2'', edge_type = ''relates'',
            weight = 5, edge_properties = []\<rparr>,
          two_nodes\<lparr>edges := [(''e1'', \<lparr>edge_id = ''e1'', source = ''n1'', target = ''n2'',
            edge_type = ''relates'', weight = 5, edge_properties = []\<rparr>)]\<rparr>)
   \<and> \<not> weights_in_unit (two_nodes\<lparr>edges := [(''e1'', \<lparr>edge_id = ''e1'', source = ''n1'',
            target = ''n2'', edge_type = ''relates'', weight = 5, edge_properties = []\<rparr>)]\<rparr>)
   \<and> weights_in_unit (updateEdgeWeight (two_nodes\<lparr>edges := [(''e1'', \<lparr>edge_id = ''e1'',
            source = ''n1'', target = ''n2'', edge_type = ''relates'', weight = 5,
            edge_properties = []\<rparr>)]\<rparr>) ''e1'' 5)"
  by (simp add: addEdge_def two_nodes_eq has_def weights_in_unit_def updateEdgeWeight_def Let_def)

theorem addEdge_stores_weight_unclamped_witness:
  "\<exists>e g. addEdge two_nodes ''e1'' ''n1'' ''n2'' ''relates'' (Some 5) None = Inr (e, g)
     \<and> weight e = 5 \<and> \<not> weights_in_unit g"
  using addEdge_stores_weight_unclamped by simp

text \<open>
  Claim C7: \<open>addEdge\<close> throws whenever the source or the target identifier is not a node
  of the graph, and after \<open>removeNode(id)\<close> no stored edge has \<open>id\<close> as its source or
  its target.
\<close>

theorem addEdge_guard_removeNode_cascade:
  "(\<not> has src (nodes g) \<or> \<not> has tgt (nodes g) \<longrightarrow>
      addEdge g uid src tgt ty w props = Inl (Error ''Source or target node does not exist''))
   \<and> list_all (\<lambda>entry. source (snd entry) \<noteq> i \<and> target (snd entry) \<noteq> i) (edges (removeNode g i))"
  using removeNode_no_touch [of i g] by (simp add: addEdge_def touches_def)

theorem addEdge_guard_removeNode_cascade_witness:
  "\<not> has ''n3'' (nodes linked)
   \<and> addEdge linked ''e2'' ''n1'' ''n3'' ''relates'' None None =
       Inl (Error ''Source or target node does not exist'')
   \<and> edges linked \<noteq> [] \<and> edges (removeNode linked ''n2'') = []"
proof -
  have "\<not> has ''n3'' (nodes linked)"
    by (simp add: linked_def two_nodes_eq has_def)
  moreover from this
  have "addEdge linked ''e2'' ''n1'' ''n3'' ''relates'' None None =
       Inl (Error ''Source or target node does not exist'')"
    using addEdge_guard_removeNode_cascade [where g = linked and src = "''n1''" and tgt = "''n3''"
        and uid = "''e2''" and ty = "''relates''" and w = None and props = None and i = "''n2''"]
    by simp
  moreover have "edges linked \<noteq> [] \<and> edges (removeNode linked ''n2'') = []"
    by (simp add: linked_def removeNode_def removeNode_step_def)
  ultimately show ?thesis by simp
qed

lemma Graph_inv_apply_op: "Graph_inv g \<Longrightarrow> Graph_inv (apply_op g op)"
proof (cases op)
  case (AddEdge uid src tgt ty w props)
  assume "Graph_inv g"
  then show ?thesis
    using AddEdge Graph_inv_addEdge [of g uid src tgt ty w props]
    by (auto split: sum.splits)
qed (simp_all add: Graph_inv_addNode Graph_inv_removeNode Graph_inv_removeEdge
      Graph_inv_updateNodePosition Graph_inv_updateEdgeWeight Graph_inv_clear Graph_inv_fromJSON)

lemma Graph_inv_foldl: "Graph_inv g \<Longrightarrow> Graph_inv (foldl apply_op g ops)"
  by (induction ops arbitrary: g) (simp_all add: Graph_inv_apply_op)

lemma Graph_inv_built_by: "Graph_inv (built_by ops)"
  by (simp add: built_by_def Graph_inv_foldl Graph_inv_new)

lemma roundtrip_inv: "Graph_inv g \<Longrightarrow> fromJSON h (toJSON g) = g"
  by (simp add: Graph_inv_def fromJSON_def toJSON_def clear_def rebuild_keyed)

text \<open>
  Claim C8: for every graph \<open>g\<close>, that is, for the graph that any sequence of calls of
  the methods builds, \<open>fromJSON(g.toJSON())\<close> on any graph \<open>h\<close> rebuilds \<open>g\<close> itself:
  the same nodes and the same edges, in the same order; so a second round trip changes
  nothing.
\<close>

theorem toJSON_fromJSON_roundtrip:
  "fromJSON h (toJSON (built_by ops)) = built_by ops
   \<and> fromJSON h' (toJSON (fromJSON h (toJSON (built_by ops)))) = fromJSON h (toJSON (built_by ops))"
  using roundtrip_inv [OF Graph_inv_built_by] by simp

theorem toJSON_fromJSON_roundtrip_witness:
  "built_by [AddNode ''n1'' ''Node 1'' ''concept'' None, AddNode ''n2'' ''Node 2'' ''concept'' None,
      AddEdge ''e1'' ''n1'' ''n2'' ''relates'' (Some (9 / 10)) None] = linked
   \<and> fromJSON Graph_new (toJSON linked) = linked"
proof -
  have b: "built_by [AddNode ''n1'' ''Node 1'' ''concept'' None, AddNode ''n2'' ''Node 2'' ''concept'' None,
      AddEdge ''e1'' ''n1'' ''n2'' ''relates'' (Some (9 / 10)) None] = linked"
    by (simp add: built_by_def linked_def two_nodes_eq Graph_new_def addNode_def addEdge_def has_def
        Let_def)
  show ?thesis
    using toJSON_fromJSON_roundtrip [of Graph_new "[AddNode ''n1'' ''Node 1'' ''concept'' None,
      AddNode ''n2'' ''Node 2'' ''concept'' None,
      AddEdge ''e1'' ''n1'' ''n2'' ''relates'' (Some (9 / 10)) None]" Graph_new]
    by (simp only: b)
qed

section \<open>Rounding in double precision\<close>



lemma round_even_of_int: "round_even (of_int k) = k"
  by (simp add: round_even_def)



lemma fl_zero: "fl 0 = Num 0"
  by (simp add: fl_def)





lemma js_add_NaN [simp]: "js_add a NaN = NaN"
  by (cases a) simp_all

lemma js_mul_NaN [simp]: "js_mul a NaN = NaN"
  by (cases a) simp_all

lemma js_div_NaN [simp]: "js_div a NaN = NaN"
  by (cases a) simp_all

lemma js_sub_NaN [simp]: "js_sub a NaN = NaN" "js_sub NaN b = NaN"
  by (simp_all add: js_sub_def)

lemma js_less_NaN [simp]: "js_less a NaN = False"
  by (cases a) simp_all

lemma js_le_NaN [simp]: "js_le a NaN = False"
  by (cases a) simp_all




















section \<open>Normalization of a field\<close>




































section \<open>Initialization of a field\<close>


lemma array_put_inside: "k < length a \<Longrightarrow> array_put a k v = a[k := v]"
  by (simp add: array_put_def)

lemma take_Suc_update: "k < length a \<Longrightarrow> take (Suc k) (a[k := v]) = take k a @ [v]"
  by (simp add: take_Suc_conv_app_nth)

lemma initialize_step_agree:
  assumes "agree_upto j f g" and "j < length (field_values f)"
  shows "agree_upto (Suc j) (initialize_step c f j) (initialize_step c g j)"
  using assms
  by (simp add: agree_upto_def initialize_step_def Let_def array_put_inside take_Suc_update)

lemma initialize_step_length:
  "k < length (field_values f) \<Longrightarrow>
   length (field_values (initialize_step c f k)) = length (field_values f)"
  by (simp add: initialize_step_def Let_def array_put_inside)

lemma initialize_loop_agree:
  "agree_upto 0 f g \<Longrightarrow> j \<le> length (field_values f) \<Longrightarrow>
   agree_upto j (foldl (initialize_step c) f [0..<j]) (foldl (initialize_step c) g [0..<j])
   \<and> length (field_values (foldl (initialize_step c) f [0..<j])) = length (field_values f)"
proof (induction j)
  case 0
  then show ?case by simp
next
  case (Suc j)
  then have IH: "agree_upto j (foldl (initialize_step c) f [0..<j]) (foldl (initialize_step c) g [0..<j])"
    and len: "length (field_values (foldl (initialize_step c) f [0..<j])) = length (field_values f)"
    by simp_all
  from len Suc.prems have lt: "j < length (field_values (foldl (initialize_step c) f [0..<j]))"
    by simp
  show ?case
    using initialize_step_agree [OF IH lt] initialize_step_length [OF lt] len
    by simp
qed

lemma field_shape_new: "field_shape n (QuantumField_new n)"
  by (simp add: field_shape_def QuantumField_new_def)

text \<open>
  Claim C5: \<open>initialize\<close> is deterministic. Whatever two fields of the same dimension
  count held before (fresh from the constructor or used), initializing both with the same
  token leaves them with equal values, equal phase arrays and equal coherence: the
  result is a function of the token and the dimension count alone.
\<close>

theorem initialize_deterministic:
  assumes "field_shape n f" and "field_shape n g"
  shows "field_values (initialize token f) = field_values (initialize token g)
    \<and> field_phase (initialize token f) = field_phase (initialize token g)
    \<and> coherence (initialize token f) = coherence (initialize token g)"
proof -
  define P where "P = getPrimeFactors (nat \<bar>token_hash token\<bar> + 1)"
  define c where "c = sqrt (foldl (\<lambda>sum p. sum + 1 / real p) 0 P)"
  define f1 where "f1 = f\<lparr>coherence := 0, primeFactors := P\<rparr>"
  define g1 where "g1 = g\<lparr>coherence := 0, primeFactors := P\<rparr>"
  have start: "agree_upto 0 f1 g1"
    using assms by (simp add: agree_upto_def field_shape_def f1_def g1_def)
  have n: "length (field_values f1) = n" "length (field_values g1) = n"
    using assms by (simp_all add: field_shape_def f1_def g1_def)
  have f: "initialize token f = foldl (initialize_step c) f1 [0..<n]"
    using n by (simp add: initialize_def Let_def f1_def c_def P_def)
  have g: "initialize token g = foldl (initialize_step c) g1 [0..<n]"
    using n by (simp add: initialize_def Let_def g1_def c_def P_def)
  from initialize_loop_agree [OF start, of n c] n
  have ag: "agree_upto n (initialize token f) (initialize token g)"
    and lf: "length (field_values (initialize token f)) = n"
    by (simp_all add: f g)
  note ag' = ag [unfolded agree_upto_def]
  from ag' lf have lg: "length (field_values (initialize token g)) = n" by linarith
  from ag' lf have pf: "length (field_phase (initialize token f)) = n" by linarith
  from ag' lg have pg: "length (field_phase (initialize token g)) = n" by linarith
  from ag' have vals: "take n (field_values (initialize token f)) = take n (field_values (initialize token g))"
    by blast
  from ag' have phs: "take n (field_phase (initialize token f)) = take n (field_phase (initialize token g))"
    by blast
  from ag' have coh: "coherence (initialize token f) = coherence (initialize token g)"
    by blast
  have "field_values (initialize token f) = field_values (initialize token g)"
    using vals take_all [of "field_values (initialize token f)" n]
      take_all [of "field_values (initialize token g)" n] lf lg by simp
  moreover have "field_phase (initialize token f) = field_phase (initialize token g)"
    using phs take_all [of "field_phase (initialize token f)" n]
      take_all [of "field_phase (initialize token g)" n] pf pg by simp
  ultimately show ?thesis using coh by simp
qed


theorem initialize_deterministic_witness:
  "field_shape 2 (QuantumField_new 2) \<and> field_shape 2 used_field
   \<and> used_field \<noteq> QuantumField_new 2
   \<and> field_values (initialize [100] used_field) = field_values (initialize [100] (QuantumField_new 2))
   \<and> field_phase (initialize [100] used_field) = field_phase (initialize [100] (QuantumField_new 2))
   \<and> coherence (initialize [100] used_field) = coherence (initialize [100] (QuantumField_new 2))"
proof -
  have a: "field_shape 2 used_field"
    by (simp add: field_shape_def used_field_def QuantumField_new_def)
  have b: "field_shape 2 (QuantumField_new 2)" by (rule field_shape_new)
  have c: "used_field \<noteq> QuantumField_new 2"
    by (simp add: used_field_def QuantumField_new_def)
  show ?thesis using initialize_deterministic [OF a b, of "[100]"] a b c by simp
qed



lemma factors_101: "getPrimeFactors 101 = [101]"
  by code_simp

lemma hash_d: "token_hash [100] = 100"
  by (simp add: token_hash_def shift_left_5_def)

lemma spectralSum_single:
  "0 < p \<Longrightarrow> spectralSum_at [p] x = Complex_new (1 / (real p * real p)) 0"
  by (simp add: spectralSum_at_def spectralFormFactor_def Complex_add_def)

lemma fromPolar_magnitude: "(Complex_magnitude (Complex_fromPolar r t))\<^sup>2 = r\<^sup>2"
proof -
  have "(r * cos t)\<^sup>2 + (r * sin t)\<^sup>2 = r\<^sup>2 * ((cos t)\<^sup>2 + (sin t)\<^sup>2)"
    by (simp only: power_mult_distrib distrib_left)
  also have "\<dots> = r\<^sup>2" by simp
  finally show ?thesis
    by (simp add: Complex_magnitude_def Complex_fromPolar_def flip: power2_eq_square)
qed


lemma upt_2: "[0..<2] = [0, 1]"
  by (simp add: upt_rec)

lemma d_field_coherence:
  "coherence d_field = sqrt ((sqrt (1 / 2060602) + 1 / 1030301) / 2)"
  unfolding d_field_def initialize_def Let_def
  by (simp add: hash_d factors_101 QuantumField_new_def upt_2 initialize_step_def Let_def
        spectralSum_single Complex_magnitude_def array_put_def del: real_sqrt_divide)

lemma d_field_values:
  "field_values d_field =
     [Complex_fromPolar (sqrt (1 / 104060401) / sqrt (1 / 101)) 0,
      Complex_fromPolar (sqrt (1 / 104060401) / sqrt (1 / 101)) (ln 101 / 2)]
   \<and> dimensions d_field = 2"
  unfolding d_field_def initialize_def Let_def
  by (simp add: hash_d factors_101 QuantumField_new_def upt_2 initialize_step_def Let_def
        spectralSum_single Complex_magnitude_def Complex_phase_def atan2_def berryPhase_def
        array_put_def numeral_2_eq_2 del: real_sqrt_divide)

lemma d_field_rms: "rms_magnitude d_field = sqrt (1 / 1030301)"
proof -
  have m: "(sqrt (1 / 104060401) / sqrt (1 / 101))\<^sup>2 = (1 / 1030301 :: real)"
  proof -
    have "(sqrt (1 / 104060401) / sqrt (1 / 101))\<^sup>2
        = (sqrt (1 / 104060401))\<^sup>2 / (sqrt (1 / 101))\<^sup>2"
      by (simp only: power_divide)
    also have "\<dots> = (1 / 104060401) / (1 / 101)" by simp
    also have "\<dots> = 1 / 1030301" by simp
    finally show ?thesis .
  qed
  have "norm_squared (field_values d_field) = 1 / 1030301 + (1 / 1030301 + 0)"
    by (simp only: d_field_values norm_squared_def list.map sum_list.Cons sum_list.Nil
          fromPolar_magnitude m)
  then show ?thesis by (simp add: rms_magnitude_def d_field_values)
qed

text \<open>
  Claim C3 (after \<open>initialize\<close> the coherence is the root mean square of the magnitudes).
  For the token \<open>d\<close> and two dimensions both values have the squared magnitude
  \<open>1 / 1030301\<close>, so the root mean square is \<open>sqrt (1 / 1030301)\<close>; the coherence that
  \<open>initialize\<close> leaves is larger, because the square root is taken in every round of
  the loop and not once after it.
\<close>

theorem initialize_coherence_not_rms:
  "coherence (initialize [100] (QuantumField_new 2)) = sqrt ((sqrt (1 / 2060602) + 1 / 1030301) / 2)
   \<and> rms_magnitude (initialize [100] (QuantumField_new 2)) = sqrt (1 / 1030301)
   \<and> rms_magnitude (initialize [100] (QuantumField_new 2))
       < coherence (initialize [100] (QuantumField_new 2))"
proof -
  have "sqrt (1 / 1030301\<^sup>2) < sqrt (1 / 2060602 :: real)"
    by (simp only: real_sqrt_less_iff) simp
  then have "(1 / 1030301 :: real) < sqrt (1 / 2060602)"
    by (simp add: real_sqrt_divide)
  then have "(1 / 1030301 :: real) < (sqrt (1 / 2060602) + 1 / 1030301) / 2" by simp
  then have "sqrt (1 / 1030301) < sqrt ((sqrt (1 / 2060602) + 1 / 1030301) / 2)"
    by (simp only: real_sqrt_less_iff)
  then show ?thesis
    using d_field_coherence d_field_rms by (simp only: d_field_def)
qed


section \<open>The resonance history of the learner\<close>


lemma decay_fold_prefix:
  fixes h :: "real list"
  shows "j \<le> length h \<Longrightarrow>
   foldl (\<lambda>h i. h[i := h ! i * d ^ (length h - i - 1)]) h [0..<j]
     = map (\<lambda>i. if i < j then h ! i * d ^ (length h - i - 1) else h ! i) [0..<length h]"
proof (induction j)
  case 0
  then show ?case by (simp add: map_nth)
next
  case (Suc j)
  define f where "f = (\<lambda>(h :: real list) i. h[i := h ! i * d ^ (length h - i - 1)])"
  define e where "e = (\<lambda>i. h ! i * d ^ (length h - i - 1))"
  from Suc have IH: "foldl f h [0..<j] = map (\<lambda>i. if i < j then e i else h ! i) [0..<length h]"
    and j: "j < length h" by (simp_all add: f_def e_def)
  have "foldl f h [0..<Suc j] = f (foldl f h [0..<j]) j" by simp
  also have "\<dots> = map (\<lambda>i. if i < Suc j then e i else h ! i) [0..<length h]"
    unfolding IH using j
    by (intro nth_equalityI) (auto simp: f_def e_def nth_list_update less_Suc_eq)
  finally show ?case by (simp add: f_def e_def)
qed

lemma decay_in_place_map:
  "decay_in_place d h = map (\<lambda>i. h ! i * d ^ (length h - i - 1)) [0..<length h]"
  using decay_fold_prefix [of "length h" h d] by (simp add: decay_in_place_def)

lemma triangle_Suc: "triangle (Suc k) = triangle k + Suc k"
proof -
  have "Suc k * (Suc k + 1) = 2 * Suc k + k * (k + 1)" by simp
  then have "triangle (Suc k) = (2 * Suc k + k * (k + 1)) div 2" by (simp only: triangle_def)
  also have "\<dots> = Suc k + k * (k + 1) div 2" by (simp only: div_mult_self4)
  finally show ?thesis by (simp add: triangle_def)
qed


lemma has_map_of: "has k m \<longleftrightarrow> map_of m k \<noteq> None"
  by (simp add: has_def map_of_eq_None_iff)

lemma pattern_after_update:
  "getResonancePattern (updateResonanceHistory L (getFieldKey s c) r) s c
     = pushed_history (decayFactor L) r (getResonancePattern L s c)"
proof (cases "map_of (resonanceHistory L) (getFieldKey s c)")
  case None
  then show ?thesis
    by (simp add: getResonancePattern_def updateResonanceHistory_def Let_def pushed_history_def
      AList.update_conv' has_map_of)
next
  case (Some h)
  then show ?thesis
    by (simp add: getResonancePattern_def updateResonanceHistory_def Let_def pushed_history_def
      AList.update_conv' has_map_of)
qed


lemma learn_history:
  "resonanceHistory (snd (learnFromInteraction L s t r c))
     = resonanceHistory (updateResonanceHistory L (getFieldKey s c) r)"
  by (simp add: learnFromInteraction_def Let_def split: sum.splits)

lemma learn_decayFactor: "decayFactor (snd (learnFromInteraction L s t r c)) = decayFactor L"
  by (simp add: learnFromInteraction_def updateResonanceHistory_def Let_def split: sum.splits)

lemma pattern_after_learn:
  "getResonancePattern (snd (learnFromInteraction L s t r c)) s c
     = pushed_history (decayFactor L) r (getResonancePattern L s c)"
  using pattern_after_update [of L s c r] learn_history [of L s t r c]
  by (simp add: getResonancePattern_def)

lemma learn_repeatedly_decayFactor: "decayFactor (learn_repeatedly n L s t r c) = decayFactor L"
  by (induction n) (simp_all add: learn_decayFactor)

lemma pushed_short:
  "length h < 100 \<Longrightarrow>
   pushed_history d r h = map (\<lambda>i. (h @ [r]) ! i * d ^ (length h - i)) [0..<Suc (length h)]"
  by (simp add: pushed_history_def decay_in_place_map)

lemma pushed_full:
  "length h = 100 \<Longrightarrow>
   pushed_history d r h = map (\<lambda>i. (tl h @ [r]) ! i * d ^ (99 - i)) [0..<100]"
  by (cases h) (simp_all add: pushed_history_def decay_in_place_map)

lemma decayed_ones_length: "length (decayed_ones d m) = m"
  by (simp add: decayed_ones_def)

lemma power_triangle_step: "i < m \<Longrightarrow> d ^ triangle (m - 1 - i) * d ^ (m - i) = (d :: real) ^ triangle (m - i)"
proof -
  assume "i < m"
  then have "m - i = Suc (m - 1 - i)" by simp
  then have "triangle (m - i) = triangle (m - 1 - i) + (m - i)"
    using triangle_Suc [of "m - 1 - i"] by simp
  then show ?thesis by (simp only: power_add)
qed

lemma pushed_decayed_ones_grow:
  assumes "m < 100"
  shows "pushed_history d 1 (decayed_ones d m) = decayed_ones d (Suc m)"
proof (rule nth_equalityI)
  show "length (pushed_history d 1 (decayed_ones d m)) = length (decayed_ones d (Suc m))"
    using assms by (simp add: pushed_short decayed_ones_length)
next
  fix i assume "i < length (pushed_history d 1 (decayed_ones d m))"
  then have i: "i < Suc m"
    using assms by (simp add: pushed_short decayed_ones_length)
  show "pushed_history d 1 (decayed_ones d m) ! i = decayed_ones d (Suc m) ! i"
  proof (cases "i < m")
    case True
    have "pushed_history d 1 (decayed_ones d m) ! i = decayed_ones d m ! i * d ^ (m - i)"
      using True assms by (simp add: pushed_short decayed_ones_length nth_append del: upt_Suc)
    also have "\<dots> = d ^ triangle (m - 1 - i) * d ^ (m - i)"
      using True by (simp add: decayed_ones_def)
    also have "\<dots> = d ^ triangle (m - i)" using True by (rule power_triangle_step)
    also have "\<dots> = decayed_ones d (Suc m) ! i"
      using i by (simp add: decayed_ones_def del: upt_Suc)
    finally show ?thesis .
  next
    case False
    with i have im: "i = m" by simp
    have "pushed_history d 1 (decayed_ones d m) ! m = 1"
      using assms by (simp add: pushed_short decayed_ones_length nth_append del: upt_Suc)
    moreover have "decayed_ones d (Suc m) ! m = 1"
      by (simp add: decayed_ones_def triangle_def del: upt_Suc)
    ultimately show ?thesis using im by simp
  qed
qed

lemma pushed_decayed_ones_full:
  "pushed_history d 1 (decayed_ones d 100) = decayed_ones d 100"
proof (rule nth_equalityI)
  show "length (pushed_history d 1 (decayed_ones d 100)) = length (decayed_ones d 100)"
    by (simp add: pushed_full decayed_ones_length)
next
  fix i assume "i < length (pushed_history d 1 (decayed_ones d 100))"
  then have i: "i < 100" by (simp add: pushed_full decayed_ones_length)
  show "pushed_history d 1 (decayed_ones d 100) ! i = decayed_ones d 100 ! i"
  proof (cases "i < 99")
    case True
    have "pushed_history d 1 (decayed_ones d 100) ! i = tl (decayed_ones d 100) ! i * d ^ (99 - i)"
      using True by (simp add: pushed_full decayed_ones_length nth_append)
    also have "\<dots> = decayed_ones d 100 ! Suc i * d ^ (99 - i)"
      using True by (simp add: nth_tl decayed_ones_length)
    also have "\<dots> = d ^ triangle (99 - 1 - i) * d ^ (99 - i)"
      using True by (simp add: decayed_ones_def)
    also have "\<dots> = d ^ triangle (99 - i)" using True by (rule power_triangle_step)
    also have "\<dots> = decayed_ones d 100 ! i" using i by (simp add: decayed_ones_def)
    finally show ?thesis .
  next
    case False
    with i have im: "i = 99" by simp
    have "pushed_history d 1 (decayed_ones d 100) ! 99 = 1"
      by (simp add: pushed_full decayed_ones_length nth_append)
    moreover have "decayed_ones d 100 ! 99 = 1"
      by (simp add: decayed_ones_def triangle_def)
    ultimately show ?thesis using im by simp
  qed
qed

lemma pattern_closed_form:
  assumes "getResonancePattern L s c = []"
  shows "getResonancePattern (learn_repeatedly n L s t 1 c) s c = decayed_ones (decayFactor L) (min n 100)"
proof (induction n)
  case 0
  then show ?case using assms by (simp add: decayed_ones_def)
next
  case (Suc n)
  have "getResonancePattern (learn_repeatedly (Suc n) L s t 1 c) s c
      = pushed_history (decayFactor L) 1 (decayed_ones (decayFactor L) (min n 100))"
    by (simp add: pattern_after_learn learn_repeatedly_decayFactor Suc.IH)
  also have "\<dots> = decayed_ones (decayFactor L) (min (Suc n) 100)"
  proof (cases "n < 100")
    case True
    then show ?thesis by (simp add: pushed_decayed_ones_grow min_def)
  next
    case False
    then show ?thesis by (simp add: pushed_decayed_ones_full min_def)
  qed
  finally show ?case .
qed


lemma decayed_ones_Suc: "decayed_ones d (Suc m) = d ^ triangle m # decayed_ones d m"
  by (simp add: decayed_ones_def map_upt_Suc del: upt_Suc)

lemma triangle_mono: "triangle m \<le> triangle (Suc m)"
  by (simp add: triangle_Suc)

lemma decayed_sum_lower:
  fixes d :: real
  assumes "0 \<le> d" "d \<le> 1"
  shows "real m * d ^ triangle m \<le> sum_list (decayed_ones d m)"
proof (induction m)
  case 0
  then show ?case by (simp add: decayed_ones_def)
next
  case (Suc m)
  have "d ^ triangle (Suc m) \<le> d ^ triangle m"
    using assms triangle_mono by (intro power_decreasing)
  then have "real (Suc m) * d ^ triangle (Suc m) \<le> real (Suc m) * d ^ triangle m"
    by (intro mult_left_mono) simp_all
  also have "\<dots> = d ^ triangle m + real m * d ^ triangle m" by (simp add: algebra_simps)
  also have "\<dots> \<le> d ^ triangle m + sum_list (decayed_ones d m)" using Suc.IH by simp
  finally show ?case by (simp add: decayed_ones_Suc)
qed

lemma decayed_sum_upper:
  fixes d :: real
  assumes "1 \<le> d"
  shows "sum_list (decayed_ones d m) \<le> real m * d ^ triangle m"
proof (induction m)
  case 0
  then show ?case by (simp add: decayed_ones_def)
next
  case (Suc m)
  have le: "d ^ triangle m \<le> d ^ triangle (Suc m)"
    using assms triangle_mono by (intro power_increasing)
  have "sum_list (decayed_ones d (Suc m)) = d ^ triangle m + sum_list (decayed_ones d m)"
    by (simp add: decayed_ones_Suc)
  also have "\<dots> \<le> d ^ triangle m + real m * d ^ triangle m" using Suc.IH by simp
  also have "\<dots> = real (Suc m) * d ^ triangle m" by (simp add: algebra_simps)
  also have "\<dots> \<le> real (Suc m) * d ^ triangle (Suc m)"
    using le by (intro mult_left_mono) simp_all
  finally show ?case .
qed

lemma average_decayed_ones_Suc:
  "average (decayed_ones d (Suc m)) = (d ^ triangle m + sum_list (decayed_ones d m)) / real (Suc m)"
  by (simp add: average_def decayed_ones_Suc decayed_ones_length)

lemma average_decreases:
  fixes d :: real
  assumes "0 \<le> d" "d \<le> 1" "0 < m"
  shows "average (decayed_ones d (Suc m)) \<le> average (decayed_ones d m)"
proof -
  define S where "S = sum_list (decayed_ones d m)"
  define a where "a = d ^ triangle m"
  have low: "real m * a \<le> S" using decayed_sum_lower [OF assms(1,2), of m] by (simp add: S_def a_def)
  have "(a + S) * real m \<le> S * real (Suc m)" using low by (simp add: algebra_simps)
  then have "(a + S) / real (Suc m) \<le> S / real m"
    using assms(3) by (simp add: field_simps)
  moreover have "average (decayed_ones d (Suc m)) = (a + S) / real (Suc m)"
    unfolding S_def a_def by (rule average_decayed_ones_Suc)
  moreover have "average (decayed_ones d m) = S / real m"
    unfolding S_def by (simp only: average_def decayed_ones_length)
  ultimately show ?thesis by simp
qed

lemma average_increases:
  fixes d :: real
  assumes "1 \<le> d" "0 < m"
  shows "average (decayed_ones d m) \<le> average (decayed_ones d (Suc m))"
proof -
  define S where "S = sum_list (decayed_ones d m)"
  define a where "a = d ^ triangle m"
  have up: "S \<le> real m * a" using decayed_sum_upper [OF assms(1), of m] by (simp add: S_def a_def)
  have "S * real (Suc m) \<le> (a + S) * real m" using up by (simp add: algebra_simps)
  then have "S / real m \<le> (a + S) / real (Suc m)"
    using assms(2) by (simp add: field_simps)
  moreover have "average (decayed_ones d (Suc m)) = (a + S) / real (Suc m)"
    unfolding S_def a_def by (rule average_decayed_ones_Suc)
  moreover have "average (decayed_ones d m) = S / real m"
    unfolding S_def by (simp only: average_def decayed_ones_length)
  ultimately show ?thesis by simp
qed

lemma fresh_pattern: "getResonancePattern fresh_learner s c = []"
  by (simp add: getResonancePattern_def fresh_learner_def FieldLearner_new_def)

lemma fresh_decay: "decayFactor fresh_learner = 99 / 100"
  by (simp add: fresh_learner_def FieldLearner_new_def)

lemma decayed_ones_1: "decayed_ones d (Suc 0) = [1]"
  by (simp add: decayed_ones_def triangle_def)

lemma decayed_ones_2: "decayed_ones d 2 = [d, 1]"
  by (simp add: decayed_ones_def triangle_def numeral_2_eq_2)

text \<open>
  With the default decay factor 0.99 the average of the history is 1 after the first call
  and 199/200 after the second: it has gone down.
\<close>

theorem resonance_average_decreases_counterexample:
  "average (getResonancePattern (learn_repeatedly 1 fresh_learner three_four used_field 1 None) three_four None) = 1
   \<and> average (getResonancePattern (learn_repeatedly 2 fresh_learner three_four used_field 1 None) three_four None) = 199 / 200
   \<and> \<not> average (getResonancePattern (learn_repeatedly 1 fresh_learner three_four used_field 1 None) three_four None)
       \<le> average (getResonancePattern (learn_repeatedly 2 fresh_learner three_four used_field 1 None) three_four None)"
  by (simp only: pattern_closed_form [OF fresh_pattern] fresh_decay)
     (simp add: decayed_ones_1 decayed_ones_2 average_def)

text \<open>
  Claim C2, as the code has it: starting from a learner that holds no history for the
  source yet, calls of \<open>learnFromInteraction\<close> with resonance 1 and the same fields make
  the average of \<open>getResonancePattern(source)\<close> monotonically non-increasing in the number
  of calls when the decay factor lies in \<open>[0, 1]\<close>, and monotonically non-decreasing
  when the decay factor is at least 1.
\<close>

theorem resonance_average_follows_decay:
  assumes "getResonancePattern L s c = []" and "0 < n"
  shows "(0 \<le> decayFactor L \<and> decayFactor L \<le> 1 \<longrightarrow>
            average (getResonancePattern (learn_repeatedly (Suc n) L s t 1 c) s c)
              \<le> average (getResonancePattern (learn_repeatedly n L s t 1 c) s c))
       \<and> (1 \<le> decayFactor L \<longrightarrow>
            average (getResonancePattern (learn_repeatedly n L s t 1 c) s c)
              \<le> average (getResonancePattern (learn_repeatedly (Suc n) L s t 1 c) s c))"
proof (cases "n < 100")
  case True
  then have "min n 100 = n" "min (Suc n) 100 = Suc n" by simp_all
  then show ?thesis
    using average_decreases [of "decayFactor L" n] average_increases [of "decayFactor L" n] assms(2)
    by (simp only: pattern_closed_form [OF assms(1)]) blast
next
  case False
  then have "min n 100 = 100" "min (Suc n) 100 = 100" by simp_all
  then show ?thesis by (simp only: pattern_closed_form [OF assms(1)]) simp
qed


theorem resonance_average_follows_decay_witness:
  "getResonancePattern fresh_learner three_four None = [] \<and> 0 \<le> decayFactor fresh_learner
   \<and> decayFactor fresh_learner \<le> 1
   \<and> average (getResonancePattern (learn_repeatedly (Suc 1) fresh_learner three_four used_field 1 None) three_four None)
       \<le> average (getResonancePattern (learn_repeatedly 1 fresh_learner three_four used_field 1 None) three_four None)"
  using resonance_average_follows_decay [OF fresh_pattern, where n = 1 and s = three_four
      and c = None and t = used_field]
  by (simp only: fresh_pattern fresh_decay) simp


section \<open>Evolution of a single state\<close>



lemma foldl_fixed: "(\<And>x. x \<in> set xs \<Longrightarrow> f a x = a) \<Longrightarrow> foldl f a xs = a"
  by (induction xs) simp_all

lemma zero_wave_nth: "zero_wave w \<Longrightarrow> i < length (wave_dimensions w) \<Longrightarrow> wave_dimensions w ! i = Complex_new 0 0"
  by (metis zero_wave_def nth_replicate)

lemma setDimension_zero:
  "zero_wave w \<Longrightarrow> i < length (wave_dimensions w) \<Longrightarrow>
   setDimension w i (Complex_scale (getDimensions w ! i) c) = w"
proof -
  assume z: "zero_wave w" and i: "i < length (wave_dimensions w)"
  have "(wave_dimensions w)[i := Complex_new 0 0] = wave_dimensions w"
    using zero_wave_nth [OF z i] by (metis list_update_id)
  then show ?thesis
    using zero_wave_nth [OF z i] i
    by (simp add: setDimension_def getDimensions_def Complex_scale_def)
qed

lemma dissipation_zero:
  "zero_wave w \<Longrightarrow> op_apply (createDissipationOperator rate) w t = w"
  by (simp add: createDissipationOperator_def Let_def getDimensions_def)
     (rule foldl_fixed, simp add: setDimension_zero [unfolded getDimensions_def])

lemma zero_energy_fold:
  "foldl (\<lambda>e dim. e + (real_c dim * real_c dim + imag_c dim * imag_c dim)) a
     (replicate n (Complex_new 0 0)) = a"
  by (rule foldl_fixed) simp

lemma zero_norm_fold:
  "foldl (\<lambda>acc dim. acc + real_c (Complex_multiply dim (Complex_conjugate dim))) a
     (replicate n (Complex_new 0 0)) = a"
  by (rule foldl_fixed) (simp add: Complex_multiply_def Complex_conjugate_def)

lemma normalize_zero: "zero_wave w \<Longrightarrow> WaveFunction_normalize w = w"
proof -
  assume "zero_wave w"
  then have "wave_dimensions w = replicate (length (wave_dimensions w)) (Complex_new 0 0)"
    by (simp add: zero_wave_def)
  then have "foldl (\<lambda>acc dim. acc + real_c (Complex_multiply dim (Complex_conjugate dim))) 0
      (wave_dimensions w) = 0"
    using zero_norm_fold [of 0 "length (wave_dimensions w)"] by simp
  then show ?thesis by (simp add: WaveFunction_normalize_def)
qed

lemma zero_wave_new: "zero_wave (WaveFunction_new rid n)"
  by (simp add: zero_wave_def WaveFunction_new_def)

lemma zero_wave_clone: "zero_wave (waveFunction (cloneState rid s))"
  by (simp add: cloneState_def zero_wave_new)

lemma calculateCoherence_self: "\<exists>c. calculateCoherence w w = Inr c"
  by (simp add: calculateCoherence_def Let_def)

lemma coherence_over_single: "\<exists>c. coherence_over [s] s conns acc = Inr c"
proof (induction conns arbitrary: acc)
  case Nil
  then show ?case by simp
next
  case (Cons a conns)
  show ?case
  proof (cases "node_id (sourceNode s) = a")
    case True
    obtain c where "calculateCoherence (waveFunction s) (waveFunction s) = Inr c"
      using calculateCoherence_self by blast
    then show ?thesis using True Cons.IH by (simp add: find_state_def)
  next
    case False
    then show ?thesis using Cons.IH by (simp add: find_state_def)
  qed
qed

lemma calculateMetrics_single:
  "\<exists>m. calculateMetrics [s] = Inr m
     \<and> totalEnergy m = foldl (\<lambda>e dim. e + (real_c dim * real_c dim + imag_c dim * imag_c dim)) 0
                          (getDimensions (waveFunction s))"
proof -
  obtain c where "coherence_over [s] s (connections s) 0 = Inr c"
    using coherence_over_single by blast
  then show ?thesis by (simp add: calculateMetrics_def Let_def)
qed

lemma calculateMetrics_zero:
  assumes "zero_wave (waveFunction s)"
  shows "calculateMetrics [s] = Inr (projr (calculateMetrics [s]))
     \<and> totalEnergy (projr (calculateMetrics [s])) = 0"
proof -
  obtain m where m: "calculateMetrics [s] = Inr m"
    and e: "totalEnergy m = foldl (\<lambda>e dim. e + (real_c dim * real_c dim + imag_c dim * imag_c dim)) 0
                          (getDimensions (waveFunction s))"
    using calculateMetrics_single by blast
  from assms have "getDimensions (waveFunction s)
      = replicate (length (wave_dimensions (waveFunction s))) (Complex_new 0 0)"
    by (simp add: zero_wave_def getDimensions_def)
  then have "totalEnergy m = 0" using e zero_energy_fold [of 0] by simp
  with m show ?thesis by simp
qed


lemma dissipation_step:
  assumes "currentTime \<le> totalTime opts" and "zero_wave (waveFunction cs)"
    and "operators opts = [createDissipationOperator rate]" and "trackMetrics opts"
  shows "evolve_loop opts ids currentTime cs history k =
     evolve_loop opts ids (currentTime + timeStep opts) cs
       (history @ [\<lparr>time = currentTime, states = [cloneState (ids k) cs],
                     metrics = projr (calculateMetrics [cs])\<rparr>]) (k + 1)"
proof -
  have same: "cs\<lparr>waveFunction := WaveFunction_normalize
      (op_apply (createDissipationOperator rate) (waveFunction cs) currentTime)\<rparr> = cs"
    using assms(2) by (simp add: dissipation_zero normalize_zero)
  have m: "calculateMetrics [cs] = Inr (projr (calculateMetrics [cs]))"
    using calculateMetrics_zero [OF assms(2)] by simp
  have "recordTimeStep opts ids k history [cs] currentTime =
      Inr (history @ [\<lparr>time = currentTime, states = [cloneState (ids k) cs],
                     metrics = projr (calculateMetrics [cs])\<rparr>], Suc k)"
    using assms(4) by (subst recordTimeStep_def, subst m) (simp add: enumerate_eq_zip)
  then show ?thesis
    using assms(1,3) same by (subst evolve_loop.simps) (simp add: Let_def)
qed

lemma loop_stop:
  "\<not> currentTime \<le> totalTime opts \<Longrightarrow>
   evolve_loop opts ids currentTime cs history k = Some (Inr (cs, history))"
  by (subst evolve_loop.simps) simp

lemma dissipation_options_simps:
  "totalTime dissipation_options = 1" "timeStep dissipation_options = 1 / 10"
  "operators dissipation_options = [createDissipationOperator (1 / 2)]"
  "trackMetrics dissipation_options"
  by (simp_all add: dissipation_options_def default_options_def)

lemma dissipation_run:
  assumes "zero_wave (waveFunction cs)"
  shows "evolve_loop dissipation_options ids 0 cs [] 1 =
    Some (Inr (cs, map (\<lambda>j. \<lparr>time = real j / 10, states = [cloneState (ids (j + 1)) cs],
                               metrics = projr (calculateMetrics [cs])\<rparr>) [0..<11]))"
proof -
  note step = dissipation_step [where opts = dissipation_options and rate = "1 / 2" and cs = cs and ids = ids,
      OF _ assms dissipation_options_simps(3) dissipation_options_simps(4),
      unfolded dissipation_options_simps]
  have upt: "[0..<11] = [0, 1, 2, 3, 4, 5, 6, 7, 8, 9, 10]"
    by (simp add: upt_rec)
  show ?thesis
    by (simp add: step loop_stop dissipation_options_simps upt) (simp add: eval_nat_numeral)
qed


text \<open>
  Claim C1 (with only the dissipation operator of rate 0.5, total time 1.0 and time step
  0.1 the \<open>totalEnergy\<close> values of the history are strictly decreasing). For every
  initial state and every supply of identifiers \<open>evolveState\<close> returns a history of 11
  steps whose \<open>totalEnergy\<close> is 0 at every step: the state that evolves is the clone,
  whose wave function is all zero, dissipation scales zeros and \<open>normalize\<close> leaves a
  zero norm alone. The sequence is constant, so it is not strictly decreasing.
\<close>

theorem evolveState_dissipation_energy_constant:
  "\<exists>history. evolveState dissipation_options ids initialState = Some (Inr history)
     \<and> energies history = replicate 11 0
     \<and> \<not> strictly_decreasing (energies history)"
proof -
  define cs where "cs = cloneState (ids 0) initialState"
  have z: "zero_wave (waveFunction cs)" by (simp add: cs_def zero_wave_clone)
  define history where "history = map (\<lambda>j. \<lparr>time = real j / 10, states = [cloneState (ids (j + 1)) cs],
                               metrics = projr (calculateMetrics [cs])\<rparr>) [0..<11]"
  have run: "evolveState dissipation_options ids initialState = Some (Inr history)"
    using dissipation_run [OF z, of ids]
    by (simp add: evolveState_def cs_def history_def dissipation_options_simps)
  have "energies history = map (\<lambda>j. 0) [0..<11]"
    using calculateMetrics_zero [OF z] by (simp add: energies_def history_def)
  then have e: "energies history = replicate 11 0"
    by (simp add: map_replicate_const)
  have "\<not> strictly_decreasing (replicate 11 0)"
    by (simp add: strictly_decreasing_def eval_nat_numeral)
  with run e show ?thesis by simp
qed

theorem evolveState_dissipation_energy_constant_witness:
  "\<exists>history. evolveState dissipation_options (\<lambda>j. ''id'') (state_with [Complex_new 1 0, Complex_new 0 0])
       = Some (Inr history)
     \<and> energies history = [0, 0, 0, 0, 0, 0, 0, 0, 0, 0, 0]"
  using evolveState_dissipation_energy_constant
    [of "\<lambda>j. ''id''" "state_with [Complex_new 1 0, Complex_new 0 0]"]
  by (auto simp: eval_nat_numeral)

lemma evolve_loop_returns:
  assumes "0 < timeStep opts"
  shows "totalTime opts - t < real n * timeStep opts \<Longrightarrow>
    \<exists>r. evolve_loop opts ids t cs h k = Some r"
proof (induction n arbitrary: t cs h k)
  case 0
  then have "\<not> t \<le> totalTime opts" by simp
  then show ?case by (simp add: loop_stop)
next
  case (Suc n)
  show ?case
  proof (cases "t \<le> totalTime opts")
    case False
    then show ?thesis by (simp add: loop_stop)
  next
    case True
    define evolved where "evolved = cs\<lparr>waveFunction := WaveFunction_normalize
        (foldl (\<lambda>w operator. op_apply operator w t) (waveFunction cs) (operators opts))\<rparr>"
    from Suc.prems have next_time: "totalTime opts - (t + timeStep opts) < real n * timeStep opts"
      by (simp add: algebra_simps)
    show ?thesis
    proof (cases "recordTimeStep opts ids k h [evolved] t")
      case (Inl e)
      then show ?thesis
        using True by (subst evolve_loop.simps) (simp add: Let_def evolved_def)
    next
      case (Inr p)
      obtain h' k' where p: "p = (h', k')" by (cases p)
      from Suc.IH [OF next_time, of evolved h' k'] obtain r
        where "evolve_loop opts ids (t + timeStep opts) evolved h' k' = Some r" by blast
      then show ?thesis
        using True Inr p by (subst evolve_loop.simps) (simp add: Let_def evolved_def)
    qed
  qed
qed

lemma evolveState_returns:
  assumes "0 < timeStep opts"
  shows "\<exists>r. evolveState opts ids s = Some r"
proof -
  obtain n where "totalTime opts - 0 < real n * timeStep opts"
    using ex_less_of_nat_mult [OF assms] by blast
  from evolve_loop_returns [OF assms this, of ids "cloneState (ids 0) s" "[]" 1]
  obtain r where "evolve_loop opts ids 0 (cloneState (ids 0) s) [] 1 = Some r" by blast
  then show ?thesis by (cases r) (auto simp: evolveState_def)
qed



text \<open>
  Claim C10: the history that \<open>evolveState\<close> returns does not depend on the values in
  the wave function of the initial state. Two initial states with the same number of
  dimensions, the same source node, connections and metadata give the same result, for
  any options and the same supply of identifiers. (With a positive time step the call
  returns, by \<open>evolveState_returns\<close>.)
\<close>

theorem evolveState_ignores_values:
  assumes "length (getDimensions (waveFunction s1)) = length (getDimensions (waveFunction s2))"
    and "sourceNode s1 = sourceNode s2" and "connections s1 = connections s2"
    and "metadata s1 = metadata s2"
  shows "evolveState opts ids s1 = evolveState opts ids s2"
proof -
  have "cloneState (ids 0) s1 = cloneState (ids 0) s2"
    using assms by (simp add: cloneState_def)
  then show ?thesis by (simp add: evolveState_def)
qed


theorem evolveState_ignores_values_witness:
  "state_with [Complex_new 1 0, Complex_new 0 0] \<noteq> state_with [Complex_new 0 0, Complex_new 0 1]
   \<and> evolveState dissipation_options (\<lambda>j. ''id'') (state_with [Complex_new 1 0, Complex_new 0 0])
     = evolveState dissipation_options (\<lambda>j. ''id'') (state_with [Complex_new 0 0, Complex_new 0 1])
   \<and> evolveState dissipation_options (\<lambda>j. ''id'') (state_with [Complex_new 1 0, Complex_new 0 0]) \<noteq> None"
proof -
  have "evolveState dissipation_options (\<lambda>j. ''id'') (state_with [Complex_new 1 0, Complex_new 0 0])
     = evolveState dissipation_options (\<lambda>j. ''id'') (state_with [Complex_new 0 0, Complex_new 0 1])"
    by (rule evolveState_ignores_values) (simp_all add: state_with_def getDimensions_def)
  moreover have "state_with [Complex_new 1 0, Complex_new 0 0] \<noteq> state_with [Complex_new 0 0, Complex_new 0 1]"
    by (simp add: state_with_def WaveFunction_new_def)
  moreover have "evolveState dissipation_options (\<lambda>j. ''id'') (state_with [Complex_new 1 0, Complex_new 0 0]) \<noteq> None"
    using evolveState_returns [of dissipation_options "\<lambda>j. ''id''"] 
    by (simp add: dissipation_options_simps)
  ultimately show ?thesis by simp
qed


section \<open>Ranking of the detected patterns\<close>

lemma lone_options:
  "minClusterSize lone_detection = Num 1" "maxPatterns lone_detection = Num 10"
  by (simp_all add: lone_detection_def default_detection_def)

lemma lone_cluster:
  assumes "connections s = []"
  shows "\<exists>p. detectClusters lone_detection clock k0 [s] = Inr [p] \<and> score p = NaN"
  using assms
  by (simp add: detectClusters_def expandCluster_def calculateClusterCoherence_def index_pairs_def
      calculateClusterDensity_def set_spread_def js_ge_def js_sub_def fl_zero lone_options Let_def)

lemma lone_sequence:
  assumes "connections s = []"
  shows "\<exists>p. detectSequences lone_detection clock k0 [s] = Inr [p] \<and> score p = Num 0"
  using assms
  by (simp add: detectSequences_def findSequence_def findMostCoherentConnection_def
      calculateSequenceCoherence_def calculateSequenceStability_def js_ge_def lone_options Let_def)

lemma lone_similarities: "detectSimilarities opts clock k0 [s] = Inr []"
  by (simp add: detectSimilarities_def)

lemma lone_anomalies:
  assumes "connections s = []"
  shows "detectAnomalies opts clock k0 [s] = []"
  using assms
  by (simp add: detectAnomalies_def calculateAverageConnections_def fl_zero js_gt_def js_sub_def
      Let_def)


lemma lone_sort:
  assumes "score a = NaN"
  shows "sort_by_score [a, b] = [a, b]"
  using assms by (simp add: sort_by_score_def comes_after_def compare_scores_def)

text \<open>
  Claim C9 says that the list returned by \<open>detectPatterns\<close> is in descending order of
  score. For a detector with \<open>minClusterSize\<close> 1 and a list of one state without
  connections the code returns two patterns: the cluster of that state, whose density is
  \<open>0 / (1 * (1 - 1))\<close>, that is \<open>NaN\<close>, and so is its score; and the sequence of that state,
  of score 0. The comparator of the sort yields \<open>NaN\<close> for the two, which leaves them as
  they are, and \<open>0 <= NaN\<close> is false: the returned list is not in descending order, and
  the check \<open>patterns[i].score <= patterns[i - 1].score\<close> of the repository's test fails on
  it.
\<close>

theorem detectPatterns_lone_state_unsorted:
  assumes "connections s = []"
  shows "\<exists>ps. detectPatterns lone_detection clock [s] = Inr ps
            \<and> map score ps = [NaN, Num 0] \<and> \<not> descending_by_score ps"
proof -
  obtain a where a: "detectClusters lone_detection clock 0 [s] = Inr [a]" "score a = NaN"
    using lone_cluster [OF assms] by blast
  obtain b where b: "detectSequences lone_detection clock 1 [s] = Inr [b]" "score b = Num 0"
    using lone_sequence [OF assms] by blast
  have "detectPatterns lone_detection clock [s] = Inr [a, b]"
    using a b lone_sort [of a b]
    by (simp add: detectPatterns_def lone_similarities lone_anomalies [OF assms] lone_options
        slice_from_start_def js_trunc_def)
  with a(2) b(2) show ?thesis by simp
qed

theorem detectPatterns_lone_state_unsorted_witness:
  "connections (state_with [Complex_new 1 0, Complex_new 0 1]) = []
   \<and> (\<exists>ps. detectPatterns lone_detection (\<lambda>n. 0) [state_with [Complex_new 1 0, Complex_new 0 1]] = Inr ps
          \<and> map score ps = [NaN, Num 0] \<and> \<not> descending_by_score ps)"
  using detectPatterns_lone_state_unsorted [of "state_with [Complex_new 1 0, Complex_new 0 1]" "\<lambda>n. 0"]
  by (simp add: state_with_def)

end
